theory Spec2Isabelle
  imports Complex_Main "HOL-Library.Log_Nat" "HOL-Library.Sublist"
begin

section \<open>Python values used by \<^verbatim>\<open>open_page.py\<close>\<close>

text \<open>
  Exceptions are values. \<open>UIError\<close> stands for any exception a Playwright call
  raises (a closed page, a detached element, a timeout); \<open>ValueError\<close> and
  \<open>OverflowError\<close> are the two built-in exceptions the price arithmetic can raise,
  \<open>IndexError\<close> is \<open>configs[0]\<close> on an empty list.
\<close>

datatype py_exn = ValueError | OverflowError | IndexError | UIError

datatype 'a outcome = Returns 'a | Raises py_exn

subsection \<open>Floats\<close>

text \<open>
  A Python float is an IEEE binary64 value: a finite rational, an infinity or a NaN
  (the sign of zero plays no role in this program).
\<close>

datatype pyfloat = Fin rat | PosInf | NegInf | NaN

text \<open>\<open>ilog2 q\<close> is the binary exponent of a positive rational: \<open>2 ^ e \<le> q < 2 ^ (e + 1)\<close>.\<close>

definition ilog2 :: "rat \<Rightarrow> int" where
  "ilog2 q =
     (let (a, b) = quotient_of q;
          d = bitlen a - bitlen b
      in if 2 powi d \<le> q then d else d - 1)"

text \<open>
  Python 3's \<open>round(x)\<close> with one argument rounds to the nearest integer and
  an exact half to the even neighbour.
\<close>

definition py_round :: "rat \<Rightarrow> int" where
  "py_round x =
     (let f = \<lfloor>x\<rfloor>; d = x - of_int f
      in if d < 1 / 2 then f
         else if 1 / 2 < d then f + 1
         else if even f then f else f + 1)"

text \<open>
  Rounding an exact result to binary64 (round to nearest, ties to even): 53 significant
  bits, the smallest exponent \<open>- 1022\<close> (below it the spacing stays \<open>2 powi - 1074\<close>),
  overflow to an infinity when the rounded magnitude reaches \<open>2 ^ 1024\<close>, that is
  when its binary exponent reaches \<open>1024\<close>.
\<close>

definition to_double :: "rat \<Rightarrow> pyfloat" where
  "to_double q =
     (if q = 0 then Fin 0
      else let e = max (ilog2 \<bar>q\<bar>) (- 1022);
               u = 2 powi (e - 52);
               r = of_int (py_round (q / u)) * u
           in if r = 0 then Fin 0
              else if 1024 \<le> ilog2 \<bar>r\<bar> then (if 0 < r then PosInf else NegInf)
              else Fin r)"

text \<open>The product \<open>x * y\<close> of two floats.\<close>

fun float_mul :: "pyfloat \<Rightarrow> pyfloat \<Rightarrow> pyfloat" where
  "float_mul (Fin a) (Fin b) = to_double (a * b)"
| "float_mul NaN _ = NaN"
| "float_mul _ NaN = NaN"
| "float_mul (Fin a) PosInf = (if a = 0 then NaN else if 0 < a then PosInf else NegInf)"
| "float_mul (Fin a) NegInf = (if a = 0 then NaN else if 0 < a then NegInf else PosInf)"
| "float_mul PosInf (Fin b) = (if b = 0 then NaN else if 0 < b then PosInf else NegInf)"
| "float_mul NegInf (Fin b) = (if b = 0 then NaN else if 0 < b then NegInf else PosInf)"
| "float_mul PosInf PosInf = PosInf"
| "float_mul PosInf NegInf = NegInf"
| "float_mul NegInf PosInf = NegInf"
| "float_mul NegInf NegInf = PosInf"

text \<open>
  \<open>round(x)\<close> on a float: \<open>OverflowError\<close> on an infinity, \<open>ValueError\<close> on a NaN.
\<close>

fun round_float :: "pyfloat \<Rightarrow> int outcome" where
  "round_float (Fin q) = Returns (py_round q)"
| "round_float PosInf = Raises OverflowError"
| "round_float NegInf = Raises OverflowError"
| "round_float NaN = Raises ValueError"

section \<open>The price calculator\<close>

text \<open>
  \<open>get_price_from_api\<close> answers \<open>None\<close> or a dictionary with the keys
  \<open>bid\<close>, \<open>ask\<close> and \<open>mid\<close> that it could fill, in integer cents. The answer
  comes from the network, so it is an argument here.
\<close>

type_synonym prices = "string \<rightharpoonup> int"

text \<open>
  \<open>int(round(price_offset * 100))\<close>: the offset in cents.
\<close>

definition price_offset_int :: "pyfloat \<Rightarrow> int outcome" where
  "price_offset_int price_offset = round_float (float_mul price_offset (Fin 100))"

text \<open>
  \<open>get_and_calculate_order_price\<close>. The pair \<open>(None, None)\<close> is \<open>None\<close>, a pair
  \<open>(price_num, order_price)\<close> is \<open>Some\<close>. The handler catches \<open>ValueError\<close> only.
\<close>

definition get_and_calculate_order_price ::
  "prices option \<Rightarrow> pyfloat \<Rightarrow> string \<Rightarrow> (int \<times> int) option outcome" where
  "get_and_calculate_order_price api price_offset direction =
     (case api of
        None \<Rightarrow> Returns None
      | Some prices \<Rightarrow>
          let price_key = (if direction = ''long'' then ''bid'' else ''ask'')
          in case prices price_key of
               None \<Rightarrow> Returns None
             | Some price_num \<Rightarrow>
                 (case price_offset_int price_offset of
                    Raises ValueError \<Rightarrow> Returns None
                  | Raises e \<Rightarrow> Raises e
                  | Returns offset_int \<Rightarrow>
                      let order_price =
                            (if direction = ''long'' then price_num - offset_int
                             else price_num + \<bar>offset_int\<bar>)
                      in Returns (Some (price_num, order_price))))"

section \<open>The Nado page\<close>

text \<open>
  What the program sees of a page at one moment: \<open>page.query_selector(selector)\<close>
  raises, finds nothing, or finds an element; an element answers \<open>inner_text()\<close>,
  \<open>get_attribute('disabled')\<close> and \<open>click()\<close>, each of which may raise.
  \<open>page.wait_for_timeout\<close> only lets time pass and is taken to return.
\<close>

record element =
  inner_text :: "string outcome"
  disabled_attribute :: "string option outcome"
  click :: "unit outcome"

type_synonym page = "string \<Rightarrow> element option outcome"

subsection \<open>\<open>click_open_orders_button\<close> and \<open>cancel_all_orders\<close>\<close>

text \<open>The body of the \<open>for selector in selectors\<close> loop, inside the \<open>try\<close>.\<close>

fun click_open_orders_loop :: "page \<Rightarrow> string list \<Rightarrow> bool outcome" where
  "click_open_orders_loop page [] = Returns False"
| "click_open_orders_loop page (selector # selectors) =
     (case page selector of
        Raises e \<Rightarrow> Raises e
      | Returns None \<Rightarrow> click_open_orders_loop page selectors
      | Returns (Some button) \<Rightarrow>
          (case inner_text button of
             Raises e \<Rightarrow> Raises e
           | Returns button_text \<Rightarrow>
               if sublist ''Open Orders'' button_text
               then (case click button of Raises e \<Rightarrow> Raises e | Returns _ \<Rightarrow> Returns True)
               else click_open_orders_loop page selectors))"

definition open_orders_selectors :: "string list" where
  "open_orders_selectors =
     [''button[role=\"tab\"]:has-text(\"Open Orders\")'',
      ''button:has-text(\"Open Orders\")'',
      ''button[id*=\"open_orders\"]'']"

text \<open>\<open>except Exception: return False\<close>.\<close>

definition click_open_orders_button :: "page \<Rightarrow> string \<Rightarrow> bool" where
  "click_open_orders_button page symbol =
     (case click_open_orders_loop page open_orders_selectors of
        Raises e \<Rightarrow> False
      | Returns b \<Rightarrow> b)"

text \<open>
  The \<open>try\<close> block of \<open>cancel_all_orders\<close>; the inner \<open>try\<close> around the click
  answers \<open>True\<close> whether the click raises or not.
\<close>

definition cancel_all_orders_body :: "page \<Rightarrow> string \<Rightarrow> bool outcome" where
  "cancel_all_orders_body page symbol =
     (if \<not> click_open_orders_button page symbol then Returns False
      else case page ''button:has-text(\"Cancel all\")'' of
             Raises e \<Rightarrow> Raises e
           | Returns None \<Rightarrow> Returns True
           | Returns (Some cancel_button) \<Rightarrow>
               (case disabled_attribute cancel_button of
                  Raises e \<Rightarrow> Raises e
                | Returns attr \<Rightarrow>
                    let is_disabled = (attr \<noteq> None)
                    in if is_disabled then Returns True
                       else (case click cancel_button of
                               Raises e \<Rightarrow> Returns True
                             | Returns _ \<Rightarrow> Returns True)))"

text \<open>\<open>except Exception as e: return True\<close>.\<close>

definition cancel_all_orders :: "page \<Rightarrow> string \<Rightarrow> bool" where
  "cancel_all_orders page symbol =
     (case cancel_all_orders_body page symbol of
        Raises e \<Rightarrow> True
      | Returns b \<Rightarrow> b)"

subsection \<open>\<open>get_nado_position\<close>\<close>

text \<open>
  \<open>str.strip()\<close> removes the characters for which \<open>str.isspace\<close> holds; among the
  code points a \<open>char\<close> holds (0 to 255) these are the space, \<open>0x09\<close> to \<open>0x0D\<close>,
  \<open>0x1C\<close> to \<open>0x1F\<close>, \<open>0x85\<close> and \<open>0xA0\<close>. \<open>str.upper()\<close> is taken on the
  ASCII letters a position button shows.
\<close>

definition is_space :: "char \<Rightarrow> bool" where
  "is_space c =
     (c \<in> set [CHR '' '', CHR 0x09, CHR 0x0A, CHR 0x0B, CHR 0x0C, CHR 0x0D,
                CHR 0x1C, CHR 0x1D, CHR 0x1E, CHR 0x1F, CHR 0x85, CHR 0xA0])"

definition strip :: "string \<Rightarrow> string" where
  "strip s = rev (dropWhile is_space (rev (dropWhile is_space s)))"

definition upper_char :: "char \<Rightarrow> char" where
  "upper_char c =
     (let n = (of_char c :: nat)
      in if 97 \<le> n \<and> n \<le> 122 then char_of (n - 32) else c)"

definition upper :: "string \<Rightarrow> string" where
  "upper s = map upper_char s"

definition position_selectors :: "string list" where
  "position_selectors =
     [''button.text-negative'',
      ''button.text-positive'',
      ''button:has-text(\"BTC\")'',
      ''button:has-text(\"ETH\")'']"

text \<open>The \<open>try\<close> block: the first button whose text names the symbol, else \<open>None\<close>.\<close>

fun get_nado_position_loop :: "page \<Rightarrow> string \<Rightarrow> string list \<Rightarrow> string option outcome" where
  "get_nado_position_loop page symbol [] = Returns None"
| "get_nado_position_loop page symbol (selector # selectors) =
     (case page selector of
        Raises e \<Rightarrow> Raises e
      | Returns None \<Rightarrow> get_nado_position_loop page symbol selectors
      | Returns (Some position_button) \<Rightarrow>
          (case inner_text position_button of
             Raises e \<Rightarrow> Raises e
           | Returns text \<Rightarrow>
               let position_text = strip text
               in if position_text \<noteq> [] \<and>
                     (sublist (upper symbol) (upper position_text) \<or>
                      sublist ''BTC'' position_text \<or> sublist ''ETH'' position_text)
                  then Returns (Some position_text)
                  else get_nado_position_loop page symbol selectors))"

definition get_nado_position_body :: "page \<Rightarrow> string \<Rightarrow> string option outcome" where
  "get_nado_position_body page symbol = get_nado_position_loop page symbol position_selectors"

text \<open>
  \<open>except Exception as e: ... return None\<close>: a failed read and an absent position
  button both give \<open>None\<close>.
\<close>

definition get_nado_position :: "page \<Rightarrow> string \<Rightarrow> string option outcome" where
  "get_nado_position page symbol =
     (case get_nado_position_body page symbol of
        Raises e \<Rightarrow> Returns None
      | Returns position \<Rightarrow> Returns position)"

section \<open>The fill monitor\<close>

text \<open>
  \<open>monitor_order_fill\<close> answers \<open>True\<close>, \<open>False\<close> or \<open>None\<close>; the specification
  calls them Filled, TimedOut and NeedsResubmit.
\<close>

datatype monitor_result = Filled | TimedOut | NeedsResubmit

text \<open>
  One turn of the \<open>while True\<close> loop reads the clock and, unless it returns first, the
  page. The run of the monitor is therefore a function of what it observes turn by
  turn: the elapsed time \<open>time.time() - start_time\<close> and the page at that moment. The
  observations are an argument; when they end before the loop has returned, the monitor
  is still waiting (\<open>None\<close>).
\<close>

type_synonym observation = "rat \<times> page"

fun monitor_order_fill ::
  "observation list \<Rightarrow> string \<Rightarrow> string option \<Rightarrow> rat \<Rightarrow> rat \<Rightarrow> rat \<Rightarrow> monitor_result option" where
  "monitor_order_fill [] symbol initial_position check_interval max_wait_time retry_timeout = None"
| "monitor_order_fill ((elapsed_time, page) # later) symbol initial_position check_interval
       max_wait_time retry_timeout =
     (if retry_timeout \<le> elapsed_time then Some NeedsResubmit
      else if max_wait_time < elapsed_time then Some TimedOut
      else
        let changed =
              (case get_nado_position page symbol of
                 Raises e \<Rightarrow> False
               | Returns current_position \<Rightarrow> current_position \<noteq> initial_position)
        in if changed then Some Filled
           else if elapsed_time < max_wait_time
           then monitor_order_fill later symbol initial_position check_interval
                  max_wait_time retry_timeout
           else Some TimedOut)"

section \<open>Submitting an order\<close>

text \<open>
  \<open>execute_nado_order\<close> drives the order form through helpers that answer a boolean
  (each catches its own exceptions), except \<open>fill_nado_order_form\<close>, which has no
  handler. The helpers' answers on the page at hand are the fields.
\<close>

record order_page =
  click_limit_button :: bool
  click_long_tab_button :: bool
  click_short_tab_button :: bool
  fill_nado_order_form :: "bool outcome"
  click_submit_long_button :: bool
  click_submit_short_button :: bool

definition execute_nado_order ::
  "order_page \<Rightarrow> string \<Rightarrow> int \<Rightarrow> string \<Rightarrow> string \<Rightarrow> bool outcome" where
  "execute_nado_order page symbol order_price order_size direction =
     (if \<not> click_limit_button page then Returns False
      else if direction = ''long'' \<and> \<not> click_long_tab_button page then Returns False
      else if direction \<noteq> ''long'' \<and> \<not> click_short_tab_button page then Returns False
      else case fill_nado_order_form page of
             Raises e \<Rightarrow> Raises e
           | Returns False \<Rightarrow> Returns False
           | Returns True \<Rightarrow>
               let success = (if direction = ''long'' then click_submit_long_button page
                              else click_submit_short_button page)
               in Returns success)"

section \<open>The retry loop\<close>

text \<open>
  What the world answers during one turn of the \<open>while retry_count < max_retries\<close>
  loop: the page that \<open>cancel_all_orders\<close> meets, the answer of
  \<open>get_price_from_api\<close>, the page of the baseline read, the order form, and what the
  monitor observes.
\<close>

record attempt_env =
  cancel_page :: page
  api_prices :: "prices option"
  position_page :: page
  order_form :: order_page
  polls :: "observation list"

text \<open>The calls the program makes, in order.\<close>

datatype event =
    CancelAllOrders bool
  | WaitForTimeout nat
  | GetPrice
  | GetPosition
  | ExecuteNadoOrder string int string
  | MonitorOrderFill
  | ExecuteVariationalShort
  | ExecuteVariationalLong
  | FillQuantityVariational string
  | ClickSubmitVariational string

text \<open>
  How one turn ends: the function returns or raises (\<open>Stop\<close>), \<open>retry_count += 1\<close>
  (\<open>Retry\<close>), or the monitor has not returned yet (\<open>Blocked\<close>).
\<close>

datatype loop_step = Stop "bool outcome" | Retry | Blocked

type_synonym monitor = "observation list \<Rightarrow> string \<Rightarrow> string option \<Rightarrow> monitor_result option"

text \<open>The body of the loop, with the monitor it calls as a parameter.\<close>

definition retry_iteration ::
  "monitor \<Rightarrow> attempt_env \<Rightarrow> string \<Rightarrow> string \<Rightarrow> pyfloat \<Rightarrow> string \<Rightarrow> int
     \<Rightarrow> event list \<times> loop_step" where
  "retry_iteration mon a symbol order_size price_offset direction retry_count =
     (let ev0 = (if 0 < retry_count
                 then [CancelAllOrders (cancel_all_orders (cancel_page a) symbol),
                       WaitForTimeout 1000]
                 else [])
      in case get_and_calculate_order_price (api_prices a) price_offset direction of
           Raises e \<Rightarrow> (ev0 @ [GetPrice], Stop (Raises e))
         | Returns None \<Rightarrow> (ev0 @ [GetPrice], Stop (Returns False))
         | Returns (Some (price_num, order_price)) \<Rightarrow>
             (case get_nado_position (position_page a) symbol of
                Raises e \<Rightarrow> (ev0 @ [GetPrice, GetPosition], Stop (Raises e))
              | Returns initial_position \<Rightarrow>
                  let ev1 = ev0 @ [GetPrice, GetPosition,
                                   ExecuteNadoOrder direction order_price order_size]
                  in case execute_nado_order (order_form a) symbol order_price order_size
                            direction of
                       Raises e \<Rightarrow> (ev1, Stop (Raises e))
                     | Returns False \<Rightarrow> (ev1, Stop (Returns False))
                     | Returns True \<Rightarrow>
                         (case mon (polls a) symbol initial_position of
                            None \<Rightarrow> (ev1 @ [MonitorOrderFill], Blocked)
                          | Some Filled \<Rightarrow> (ev1 @ [MonitorOrderFill], Stop (Returns True))
                          | Some NeedsResubmit \<Rightarrow> (ev1 @ [MonitorOrderFill], Retry)
                          | Some TimedOut \<Rightarrow> (ev1 @ [MonitorOrderFill], Stop (Returns False)))))"

text \<open>
  The loop from a given \<open>retry_count\<close>; the turn numbered \<open>retry_count\<close> meets
  \<open>env (nat retry_count)\<close>. Leaving the loop by its condition is \<open>return False\<close>.
  The result is the calls made and how the function ended (\<open>None\<close>: still monitoring).
\<close>

function retry_loop ::
  "monitor \<Rightarrow> (nat \<Rightarrow> attempt_env) \<Rightarrow> string \<Rightarrow> string \<Rightarrow> pyfloat \<Rightarrow> string \<Rightarrow> int \<Rightarrow> int
     \<Rightarrow> event list \<times> bool outcome option" where
  "retry_loop mon env symbol order_size price_offset direction max_retries retry_count =
     (if retry_count < max_retries then
        (case retry_iteration mon (env (nat retry_count)) symbol order_size price_offset
                direction retry_count of
           (evs, Stop r) \<Rightarrow> (evs, Some r)
         | (evs, Blocked) \<Rightarrow> (evs, None)
         | (evs, Retry) \<Rightarrow>
             (case retry_loop mon env symbol order_size price_offset direction max_retries
                     (retry_count + 1) of
                (evs', r) \<Rightarrow> (evs @ evs', r)))
      else ([], Some (Returns False)))"
  by pat_completeness auto
termination
  by (relation "measure (\<lambda>(mon, env, symbol, order_size, price_offset, direction,
                            max_retries, retry_count). nat (max_retries - retry_count))")
     auto

text \<open>
  \<open>execute_nado_order_with_retry\<close> calls
  \<open>monitor_order_fill(..., check_interval=0.5, max_wait_time=300, retry_timeout=30)\<close>.
\<close>

definition the_monitor :: monitor where
  "the_monitor observations symbol initial_position =
     monitor_order_fill observations symbol initial_position (1 / 2) 300 30"

definition execute_nado_order_with_retry ::
  "(nat \<Rightarrow> attempt_env) \<Rightarrow> string \<Rightarrow> string \<Rightarrow> pyfloat \<Rightarrow> string \<Rightarrow> int
     \<Rightarrow> event list \<times> bool outcome option" where
  "execute_nado_order_with_retry env symbol order_size price_offset direction max_retries =
     retry_loop the_monitor env symbol order_size price_offset direction max_retries 0"

section \<open>The hedge and the two trade methods\<close>

text \<open>
  A configuration row. \<open>config.get('size', '0.0001')\<close> and
  \<open>float(config.get('price_offset', '-5'))\<close> supply defaults for absent keys; the
  field \<open>cfg_price_offset\<close> holds what \<open>float\<close> makes of the text (it raises
  \<open>ValueError\<close> on text that is no number).
\<close>

record config =
  cfg_symbol :: string
  cfg_size :: "string option"
  cfg_price_offset :: "pyfloat outcome option"

definition config_size :: "config \<Rightarrow> string" where
  "config_size c = (case cfg_size c of None \<Rightarrow> ''0.0001'' | Some s \<Rightarrow> s)"

definition config_price_offset :: "config \<Rightarrow> pyfloat outcome" where
  "config_price_offset c = (case cfg_price_offset c of None \<Rightarrow> Returns (Fin (- 5)) | Some r \<Rightarrow> r)"

text \<open>The Variational page, as the answers of the three helpers that touch it.\<close>

record variational_page =
  click_short_button_variational :: bool
  click_long_button_variational :: bool
  fill_quantity_variational :: bool
  click_submit_variational :: bool

text \<open>The dictionary \<open>pages\<close>: the keys \<open>nado\<close> and \<open>variational\<close>, when present.\<close>

record pages =
  nado :: "(nat \<Rightarrow> attempt_env) option"
  variational :: "variational_page option"

definition execute_variational_short :: "pages \<Rightarrow> config list \<Rightarrow> event list \<times> bool outcome" where
  "execute_variational_short ps configs =
     (case variational ps of
        None \<Rightarrow> ([ExecuteVariationalShort], Returns False)
      | Some variational_page \<Rightarrow>
          (case configs of
             [] \<Rightarrow> ([ExecuteVariationalShort], Raises IndexError)
           | c # _ \<Rightarrow>
               if \<not> click_short_button_variational variational_page
               then ([ExecuteVariationalShort], Returns False)
               else if \<not> fill_quantity_variational variational_page
               then ([ExecuteVariationalShort, FillQuantityVariational (config_size c)],
                     Returns False)
               else ([ExecuteVariationalShort, FillQuantityVariational (config_size c),
                      ClickSubmitVariational (cfg_symbol c)],
                     Returns (click_submit_variational variational_page))))"

definition execute_variational_long :: "pages \<Rightarrow> config list \<Rightarrow> event list \<times> bool outcome" where
  "execute_variational_long ps configs =
     (case variational ps of
        None \<Rightarrow> ([ExecuteVariationalLong], Returns False)
      | Some variational_page \<Rightarrow>
          (case configs of
             [] \<Rightarrow> ([ExecuteVariationalLong], Raises IndexError)
           | c # _ \<Rightarrow>
               if \<not> click_long_button_variational variational_page
               then ([ExecuteVariationalLong], Returns False)
               else if \<not> fill_quantity_variational variational_page
               then ([ExecuteVariationalLong, FillQuantityVariational (config_size c)],
                     Returns False)
               else ([ExecuteVariationalLong, FillQuantityVariational (config_size c),
                      ClickSubmitVariational (cfg_symbol c)],
                     Returns (click_submit_variational variational_page))))"

text \<open>
  \<open>method1\<close> and \<open>method2\<close> differ in the direction, the retry budget and the hedge.
  Their common shape, with the three as parameters:
\<close>

definition trade_method ::
  "string \<Rightarrow> int \<Rightarrow> (pages \<Rightarrow> config list \<Rightarrow> event list \<times> bool outcome)
     \<Rightarrow> pages \<Rightarrow> config list \<Rightarrow> event list \<times> unit outcome option" where
  "trade_method direction max_retries hedge ps configs =
     (case configs of
        [] \<Rightarrow> ([], Some (Returns ()))
      | c # _ \<Rightarrow>
          (case nado ps of
             None \<Rightarrow> ([], Some (Returns ()))
           | Some nado_page \<Rightarrow>
               (case config_price_offset c of
                  Raises e \<Rightarrow> ([], Some (Raises e))
                | Returns offset \<Rightarrow>
                    (case execute_nado_order_with_retry nado_page (cfg_symbol c) (config_size c)
                            offset direction max_retries of
                       (evs, None) \<Rightarrow> (evs, None)
                     | (evs, Some (Raises e)) \<Rightarrow> (evs, Some (Raises e))
                     | (evs, Some (Returns is_filled)) \<Rightarrow>
                         if is_filled
                         then (case hedge ps configs of
                                 (hevs, Raises e) \<Rightarrow> (evs @ hevs, Some (Raises e))
                               | (hevs, Returns _) \<Rightarrow> (evs @ hevs, Some (Returns ())))
                         else (evs, Some (Returns ()))))))"

definition method1 :: "pages \<Rightarrow> config list \<Rightarrow> event list \<times> unit outcome option" where
  "method1 = trade_method ''long'' 3 execute_variational_short"

definition method2 :: "pages \<Rightarrow> config list \<Rightarrow> event list \<times> unit outcome option" where
  "method2 = trade_method ''short'' 999 execute_variational_long"

section \<open>Notions used to state the properties\<close>

text \<open>
  Rounding half up as the specification words it: an exact half goes away from zero,
  to the larger magnitude.
\<close>

definition spec_round_half_up :: "rat \<Rightarrow> int" where
  "spec_round_half_up x = (if x < 0 then - \<lfloor>- x + 1 / 2\<rfloor> else \<lfloor>x + 1 / 2\<rfloor>)"

text \<open>
  The code reads the absence of open orders off the page: no \<open>Cancel all\<close> button, or
  a disabled one (its comments: a disabled button means there are no orders; no button
  counts as success too).
\<close>

definition no_open_orders :: "page \<Rightarrow> bool" where
  "no_open_orders page =
     (case page ''button:has-text(\"Cancel all\")'' of
        Raises e \<Rightarrow> False
      | Returns None \<Rightarrow> True
      | Returns (Some cancel_button) \<Rightarrow>
          (case disabled_attribute cancel_button of
             Returns (Some attr) \<Rightarrow> True
           | _ \<Rightarrow> False))"

text \<open>The turn of the retry loop numbered \<open>k\<close>.\<close>

definition turn ::
  "monitor \<Rightarrow> (nat \<Rightarrow> attempt_env) \<Rightarrow> string \<Rightarrow> string \<Rightarrow> pyfloat \<Rightarrow> string \<Rightarrow> nat
     \<Rightarrow> event list \<times> loop_step" where
  "turn mon env symbol order_size offset direction k =
     retry_iteration mon (env k) symbol order_size offset direction (int k)"

text \<open>Counting the orders submitted (the calls of \<open>execute_nado_order\<close>).\<close>

fun is_submission :: "event \<Rightarrow> bool" where
  "is_submission (ExecuteNadoOrder direction order_price order_size) = True"
| "is_submission _ = False"

definition submissions :: "event list \<Rightarrow> nat" where
  "submissions evs = length (filter is_submission evs)"

text \<open>
  No order is submitted while an earlier one has not been followed by
  \<open>cancel_all_orders\<close>; the flag says whether such an order is outstanding.
\<close>

fun cancel_precedes_resubmission :: "bool \<Rightarrow> event list \<Rightarrow> bool" where
  "cancel_precedes_resubmission outstanding [] = True"
| "cancel_precedes_resubmission outstanding (ExecuteNadoOrder d p s # evs) =
     (\<not> outstanding \<and> cancel_precedes_resubmission True evs)"
| "cancel_precedes_resubmission outstanding (CancelAllOrders b # evs) =
     cancel_precedes_resubmission False evs"
| "cancel_precedes_resubmission outstanding (e # evs) =
     cancel_precedes_resubmission outstanding evs"

text \<open>The hedge leg was attempted: one of the two Variational functions was called.\<close>

definition hedge_attempted :: "event list \<Rightarrow> bool" where
  "hedge_attempted evs =
     (ExecuteVariationalShort \<in> set evs \<or> ExecuteVariationalLong \<in> set evs)"

subsection \<open>Example inputs\<close>

text \<open>A page whose long-position button shows the given text, and nothing else.\<close>

definition page_showing :: "string \<Rightarrow> page" where
  "page_showing text selector =
     (if selector = ''button.text-positive''
      then Returns (Some \<lparr>inner_text = Returns text, disabled_attribute = Returns None,
                          click = Returns ()\<rparr>)
      else Returns None)"

text \<open>A page on which every lookup raises, and a page without any element.\<close>

definition broken_page :: page where
  "broken_page selector = Raises UIError"

definition blank_page :: page where
  "blank_page selector = Returns None"

text \<open>A page with the Open Orders tab and no \<open>Cancel all\<close> button.\<close>

definition orders_tab_page :: page where
  "orders_tab_page selector =
     (if selector = ''button:has-text(\"Open Orders\")''
      then Returns (Some \<lparr>inner_text = Returns ''Open Orders'', disabled_attribute = Returns None,
                          click = Returns ()\<rparr>)
      else Returns None)"

text \<open>The quote of the end-to-end scenario: bid 90602.00, ask 90604.00.\<close>

definition example_quote :: prices where
  "example_quote = [''bid'' \<mapsto> 9060200, ''ask'' \<mapsto> 9060400]"

text \<open>An order form on which every step succeeds.\<close>

definition good_form :: order_page where
  "good_form = \<lparr>click_limit_button = True, click_long_tab_button = True,
       click_short_tab_button = True, fill_nado_order_form = Returns True,
       click_submit_long_button = True, click_submit_short_button = True\<rparr>"

text \<open>
  A turn of the retry loop that meets the example quote, a position reading
  \<open>BTC 0.0010\<close>, a working order form, and the given observations while monitoring.
\<close>

definition example_attempt :: "observation list \<Rightarrow> attempt_env" where
  "example_attempt observations =
     \<lparr>cancel_page = orders_tab_page, api_prices = Some example_quote,
      position_page = page_showing ''BTC 0.0010'', order_form = good_form,
      polls = observations\<rparr>"

text \<open>The position stays as it was for 30 seconds; the position changes after half a second.\<close>

definition stale_polls :: "observation list" where
  "stale_polls = [(0, page_showing ''BTC 0.0010''), (30, page_showing ''BTC 0.0010'')]"

definition filled_polls :: "observation list" where
  "filled_polls = [(0, page_showing ''BTC 0.0010''), (1 / 2, page_showing ''BTC 0.0011'')]"

text \<open>
  A market in which no order ever fills, one in which the second order fills, and one in
  which the first order fills.
\<close>

definition stale_env :: "nat \<Rightarrow> attempt_env" where
  "stale_env k = example_attempt stale_polls"

definition refill_env :: "nat \<Rightarrow> attempt_env" where
  "refill_env k = (if k = 0 then example_attempt stale_polls else example_attempt filled_polls)"

definition good_variational :: variational_page where
  "good_variational = \<lparr>click_short_button_variational = True,
       click_long_button_variational = True, fill_quantity_variational = True,
       click_submit_variational = True\<rparr>"

text \<open>The configuration row of the end-to-end scenario.\<close>

definition btc_config :: config where
  "btc_config = \<lparr>cfg_symbol = ''BTC'', cfg_size = Some ''0.0001'',
       cfg_price_offset = Some (Returns (Fin (- 5)))\<rparr>"

definition fill_env :: "nat \<Rightarrow> attempt_env" where
  "fill_env k = example_attempt filled_polls"

definition fill_pages :: pages where
  "fill_pages = \<lparr>nado = Some fill_env, variational = Some good_variational\<rparr>"

definition stale_pages :: pages where
  "stale_pages = \<lparr>nado = Some stale_env, variational = Some good_variational\<rparr>"

definition refill_pages :: pages where
  "refill_pages = \<lparr>nado = Some refill_env, variational = Some good_variational\<rparr>"

section \<open>Rounding\<close>

lemma py_round_nearest: "\<bar>of_int (py_round x) - x\<bar> \<le> 1 / 2"
proof -
  have "of_int \<lfloor>x\<rfloor> \<le> x" "x < of_int \<lfloor>x\<rfloor> + 1"
    by linarith+
  then show ?thesis
    unfolding py_round_def Let_def by (auto simp: abs_le_iff)
qed

lemma py_round_tie_even:
  assumes "\<bar>of_int (py_round x) - x\<bar> = 1 / 2"
  shows "even (py_round x)"
proof -
  define d where "d = x - of_int \<lfloor>x\<rfloor>"
  have d: "0 \<le> d" "d < 1"
    unfolding d_def by linarith+
  consider "d < 1 / 2" | "1 / 2 < d" | "d = 1 / 2"
    by linarith
  then show ?thesis
  proof cases
    case 1
    then have "py_round x = \<lfloor>x\<rfloor>"
      unfolding py_round_def Let_def d_def by simp
    then have "\<bar>of_int \<lfloor>x\<rfloor> - x\<bar> = 1 / 2"
      using assms by (simp only:)
    then have False
      using d 1 unfolding d_def by linarith
    then show ?thesis ..
  next
    case 2
    then have "py_round x = \<lfloor>x\<rfloor> + 1"
      unfolding py_round_def Let_def d_def by simp
    then have "\<bar>of_int (\<lfloor>x\<rfloor> + 1) - x\<bar> = 1 / 2"
      using assms by (simp only:)
    moreover have "(of_int (\<lfloor>x\<rfloor> + 1) :: rat) = of_int \<lfloor>x\<rfloor> + 1"
      by simp
    ultimately have False
      using d 2 unfolding d_def by linarith
    then show ?thesis ..
  next
    case 3
    then show ?thesis
      unfolding py_round_def Let_def d_def by simp
  qed
qed

lemma price_offset_int_cases:
  assumes "price_offset_int price_offset = Returns c"
  obtains p where "float_mul price_offset (Fin 100) = Fin p" "c = py_round p"
  using assms unfolding price_offset_int_def
  by (cases "float_mul price_offset (Fin 100)") auto

section \<open>The order price\<close>

lemma order_price_eq:
  assumes "prices key = Some price_num" "key = (if direction = ''long'' then ''bid'' else ''ask'')"
      and "price_offset_int offset = Returns c"
  shows "get_and_calculate_order_price (Some prices) offset direction =
           Returns (Some (price_num,
             if direction = ''long'' then price_num - c else price_num + \<bar>c\<bar>))"
  using assms unfolding get_and_calculate_order_price_def by (simp add: Let_def)

text \<open>
  C2, as the code has it. With both sides of the quote present and \<open>c\<close> the offset in
  cents (\<open>int(round(price_offset * 100))\<close>), the long price is \<open>bid - c\<close> and the short
  price is \<open>ask + \<bar>c\<bar>\<close>. So the short price is at least the ask for every sign of the
  offset, while the long price is at most the bid exactly when \<open>c\<close> is not negative; in
  both directions the price meets the quote exactly when \<open>c = 0\<close>, which an offset
  under half a cent gives as well as the offset zero.
\<close>

theorem order_price_against_quote:
  assumes "prices ''bid'' = Some bid" and "prices ''ask'' = Some ask"
      and "price_offset_int offset = Returns c"
  shows "get_and_calculate_order_price (Some prices) offset ''long'' = Returns (Some (bid, bid - c))
       \<and> get_and_calculate_order_price (Some prices) offset ''short'' = Returns (Some (ask, ask + \<bar>c\<bar>))
       \<and> ask \<le> ask + \<bar>c\<bar>
       \<and> (bid - c \<le> bid) = (0 \<le> c)
       \<and> (bid - c = bid) = (c = 0)
       \<and> (ask + \<bar>c\<bar> = ask) = (c = 0)"
proof -
  have "get_and_calculate_order_price (Some prices) offset ''long'' = Returns (Some (bid, bid - c))"
    using order_price_eq [of prices "''bid''" bid "''long''" offset c] assms by simp
  moreover
  have "get_and_calculate_order_price (Some prices) offset ''short'' = Returns (Some (ask, ask + \<bar>c\<bar>))"
    using order_price_eq [of prices "''ask''" ask "''short''" offset c] assms by simp
  ultimately show ?thesis by auto
qed

lemma example_quote_bid: "example_quote ''bid'' = Some 9060200"
  by (simp add: example_quote_def)

lemma example_quote_ask: "example_quote ''ask'' = Some 9060400"
  by (simp add: example_quote_def)

lemma offset_one_1024th: "price_offset_int (Fin (1 / 1024)) = Returns 0"
  by code_simp

theorem order_price_against_quote_witness:
  "get_and_calculate_order_price (Some example_quote) (Fin (1 / 1024)) ''long''
     = Returns (Some (9060200, 9060200))
   \<and> get_and_calculate_order_price (Some example_quote) (Fin (1 / 1024)) ''short''
     = Returns (Some (9060400, 9060400))"
  using order_price_against_quote [OF example_quote_bid example_quote_ask offset_one_1024th]
  by simp

text \<open>
  C2 as stated fails: with the offset \<open>- 0.5\<close> the long price is above the bid.
\<close>

theorem order_price_long_above_bid_counterexample:
  "get_and_calculate_order_price (Some example_quote) (Fin (- 1 / 2)) ''long''
     = Returns (Some (9060200, 9060250))
   \<and> \<not> (9060250 \<le> (9060200 :: int))"
  by code_simp

text \<open>
  C8, as the code has it. The offset in cents is Python's \<open>round\<close> of the
  floating-point product \<open>price_offset * 100\<close>: an integer nearest to the product, and
  the even one of the two when the product lies exactly halfway (round half to even,
  not half up). That integer is subtracted from the bid for a long order, and its
  absolute value is added to the ask otherwise. Being a function of the offset, the
  scaling is deterministic.
\<close>

theorem offset_scaling_half_even:
  assumes "get_and_calculate_order_price (Some prices) offset direction
             = Returns (Some (price_num, order_price))"
  shows "\<exists>p c. float_mul offset (Fin 100) = Fin p
             \<and> price_offset_int offset = Returns c
             \<and> \<bar>of_int c - p\<bar> \<le> 1 / 2
             \<and> (\<bar>of_int c - p\<bar> = 1 / 2 \<longrightarrow> even c)
             \<and> order_price = (if direction = ''long'' then price_num - c else price_num + \<bar>c\<bar>)"
proof -
  from assms obtain c where c: "price_offset_int offset = Returns c"
    and o: "order_price = (if direction = ''long'' then price_num - c else price_num + \<bar>c\<bar>)"
    unfolding get_and_calculate_order_price_def
    by (auto simp: Let_def split: option.splits outcome.splits py_exn.splits)
  from c obtain p where p: "float_mul offset (Fin 100) = Fin p" "c = py_round p"
    by (rule price_offset_int_cases)
  from p c o show ?thesis
    using py_round_nearest [of p] py_round_tie_even [of p] by auto
qed

lemma example_price_eighth:
  "get_and_calculate_order_price (Some example_quote) (Fin (1 / 8)) ''long''
     = Returns (Some (9060200, 9060188))"
  by code_simp

theorem offset_scaling_half_even_witness:
  "get_and_calculate_order_price (Some example_quote) (Fin (1 / 8)) ''long''
     = Returns (Some (9060200, 9060188))
   \<and> price_offset_int (Fin (1 / 8)) = Returns (9060200 - 9060188)"
proof -
  from offset_scaling_half_even [OF example_price_eighth]
  obtain c where "price_offset_int (Fin (1 / 8)) = Returns c" "9060188 = 9060200 - c"
    by auto
  then have "price_offset_int (Fin (1 / 8)) = Returns (9060200 - 9060188)"
    by simp
  with example_price_eighth show ?thesis by simp
qed

text \<open>
  C8 as stated fails: the offset \<open>0.125\<close> is exactly \<open>12.5\<close> cents, which the code
  scales to \<open>12\<close> where rounding half up gives \<open>13\<close>.
\<close>

theorem offset_scaling_half_up_counterexample:
  "float_mul (Fin (1 / 8)) (Fin 100) = Fin (25 / 2)
   \<and> price_offset_int (Fin (1 / 8)) = Returns 12
   \<and> spec_round_half_up (25 / 2) = 13"
  by code_simp

section \<open>Reading the position\<close>

lemma get_nado_position_returns: "\<exists>position. get_nado_position page symbol = Returns position"
  unfolding get_nado_position_def by (simp split: outcome.splits)

lemma position_shown:
  "get_nado_position (page_showing ''BTC 0.0010'') ''BTC'' = Returns (Some ''BTC 0.0010'')"
  by code_simp

lemma position_broken: "get_nado_position broken_page ''BTC'' = Returns None"
  by code_simp

section \<open>The fill monitor's outcomes\<close>

lemma monitor_skips_quiet_polls:
  assumes "\<forall>(t', p') \<in> set before.
             t' < retry_timeout \<and> t' < max_wait_time
             \<and> get_nado_position p' symbol = Returns initial_position"
  shows "monitor_order_fill (before @ later) symbol initial_position check_interval
           max_wait_time retry_timeout
         = monitor_order_fill later symbol initial_position check_interval
             max_wait_time retry_timeout"
  using assms by (induction before) auto

lemma monitor_never_timed_out:
  assumes "retry_timeout \<le> max_wait_time"
  shows "monitor_order_fill observations symbol initial_position check_interval
           max_wait_time retry_timeout \<noteq> Some TimedOut"
  using assms by (induction observations) (auto simp: Let_def split: if_splits)

text \<open>
  C3, as the code has it. Take a run in which every poll reads back the baseline
  position. The monitor returns at the first turn of its loop whose elapsed time has
  reached \<open>retry_timeout\<close> or \<open>max_wait_time\<close>: TimedOut when that elapsed time is
  still below \<open>retry_timeout\<close> (it has then reached \<open>max_wait_time\<close>), and
  NeedsResubmit otherwise, because the loop tests \<open>retry_timeout\<close> first. And in every
  configuration with \<open>retry_timeout \<le> max_wait_time\<close>, as in the retry loop's call (30
  against 300), the monitor never answers TimedOut, whatever it observes.
\<close>

theorem monitor_timed_out:
  assumes "\<forall>(t', p') \<in> set before.
             t' < retry_timeout \<and> t' < max_wait_time
             \<and> get_nado_position p' symbol = Returns initial_position"
      and "retry_timeout \<le> t \<or> max_wait_time \<le> t"
      and "get_nado_position p symbol = Returns initial_position"
  shows "monitor_order_fill (before @ (t, p) # later) symbol initial_position check_interval
           max_wait_time retry_timeout
         = Some (if t < retry_timeout then TimedOut else NeedsResubmit)
       \<and> (retry_timeout \<le> max_wait_time
            \<longrightarrow> (\<forall>observations.
                  monitor_order_fill observations symbol initial_position check_interval
                    max_wait_time retry_timeout \<noteq> Some TimedOut))"
proof (intro conjI impI allI)
  show "monitor_order_fill (before @ (t, p) # later) symbol initial_position check_interval
           max_wait_time retry_timeout
         = Some (if t < retry_timeout then TimedOut else NeedsResubmit)"
    using assms(2,3) by (auto simp: monitor_skips_quiet_polls [OF assms(1)])
next
  fix observations
  assume "retry_timeout \<le> max_wait_time"
  then show "monitor_order_fill observations symbol initial_position check_interval
               max_wait_time retry_timeout \<noteq> Some TimedOut"
    by (rule monitor_never_timed_out)
qed

theorem monitor_timed_out_witness:
  "monitor_order_fill ([(0, page_showing ''BTC 0.0010'')] @
       (11, page_showing ''BTC 0.0010'') # []) ''BTC'' (Some ''BTC 0.0010'') (1 / 2) 10 30
     = Some TimedOut
   \<and> monitor_order_fill ([(0, page_showing ''BTC 0.0010'')] @
       (61 / 2, page_showing ''BTC 0.0010'') # []) ''BTC'' (Some ''BTC 0.0010'') (1 / 2) 300 30
     = Some NeedsResubmit
   \<and> monitor_order_fill [(0, page_showing ''BTC 0.0010''), (1 / 2, broken_page)] ''BTC''
       (Some ''BTC 0.0010'') (1 / 2) 300 30 \<noteq> Some TimedOut"
proof -
  note short_wait = monitor_timed_out [where before = "[(0, page_showing ''BTC 0.0010'')]"
      and retry_timeout = 30 and max_wait_time = 10 and symbol = "''BTC''"
      and initial_position = "Some ''BTC 0.0010''" and t = 11
      and p = "page_showing ''BTC 0.0010''" and later = "[]" and check_interval = "1 / 2"]
  note long_wait = monitor_timed_out [where before = "[(0, page_showing ''BTC 0.0010'')]"
      and retry_timeout = 30 and max_wait_time = 300 and symbol = "''BTC''"
      and initial_position = "Some ''BTC 0.0010''" and t = "61 / 2"
      and p = "page_showing ''BTC 0.0010''" and later = "[]" and check_interval = "1 / 2"]
  have a: "monitor_order_fill ([(0, page_showing ''BTC 0.0010'')] @
       (11, page_showing ''BTC 0.0010'') # []) ''BTC'' (Some ''BTC 0.0010'') (1 / 2) 10 30
     = Some TimedOut"
    using short_wait by (simp add: position_shown)
  have b: "monitor_order_fill ([(0, page_showing ''BTC 0.0010'')] @
       (61 / 2, page_showing ''BTC 0.0010'') # []) ''BTC'' (Some ''BTC 0.0010'') (1 / 2) 300 30
     = Some NeedsResubmit
     \<and> (\<forall>observations. monitor_order_fill observations ''BTC'' (Some ''BTC 0.0010'') (1 / 2)
           300 30 \<noteq> Some TimedOut)"
    using long_wait by (simp add: position_shown)
  from a b show ?thesis by simp
qed

text \<open>
  C3 as stated fails for the configuration the retry loop uses: the position never
  changes, the elapsed time (301 s) exceeds \<open>max_wait_time\<close> (300 s), and the monitor
  answers NeedsResubmit.
\<close>

theorem monitor_timed_out_counterexample:
  "get_nado_position (page_showing ''BTC 0.0010'') ''BTC'' = Returns (Some ''BTC 0.0010'')
   \<and> monitor_order_fill [(0, page_showing ''BTC 0.0010''), (301, page_showing ''BTC 0.0010'')]
        ''BTC'' (Some ''BTC 0.0010'') (1 / 2) 300 30 = Some NeedsResubmit"
  by (simp add: position_shown)

text \<open>
  When every poll before \<open>retry_timeout\<close> has elapsed reads back the baseline position,
  and \<open>retry_timeout < max_wait_time\<close>, the monitor answers NeedsResubmit at the first
  turn whose elapsed time has reached \<open>retry_timeout\<close>.
\<close>

lemma monitor_needs_resubmit:
  assumes "retry_timeout < max_wait_time"
      and "\<forall>(t', p') \<in> set before.
             t' < retry_timeout \<and> get_nado_position p' symbol = Returns initial_position"
      and "retry_timeout \<le> t"
  shows "monitor_order_fill (before @ (t, p) # later) symbol initial_position check_interval
           max_wait_time retry_timeout
         = Some NeedsResubmit"
proof -
  from assms(1,2) have "\<forall>(t', p') \<in> set before.
      t' < retry_timeout \<and> t' < max_wait_time
      \<and> get_nado_position p' symbol = Returns initial_position"
    by fastforce
  from monitor_skips_quiet_polls [OF this] assms(3) show ?thesis
    by simp
qed

text \<open>
  C4. The claim asks for NeedsResubmit whenever nothing changes the position before
  \<open>retry_timeout\<close> has elapsed. The code does not give it on a run with one failed read:
  with \<open>retry_timeout = 30 < max_wait_time = 300\<close>, the page shows the baseline position
  \<open>BTC 0.0010\<close> at 0 s, 1 s and 30 s, and the read at 0.5 s fails. \<open>get_nado_position\<close>
  answers \<open>None\<close> for the failed read, \<open>None\<close> differs from the baseline, and the
  monitor answers Filled at 0.5 s.
\<close>

theorem monitor_failed_read_instead_of_resubmit:
  "get_nado_position (page_showing ''BTC 0.0010'') ''BTC'' = Returns (Some ''BTC 0.0010'')
   \<and> get_nado_position_body broken_page ''BTC'' = Raises UIError
   \<and> monitor_order_fill
         [(0, page_showing ''BTC 0.0010''), (1 / 2, broken_page),
          (1, page_showing ''BTC 0.0010''), (30, page_showing ''BTC 0.0010'')]
         ''BTC'' (Some ''BTC 0.0010'') (1 / 2) 300 30
       = Some Filled"
  by code_simp

text \<open>
  C5. The monitor's own handler would treat a failed read as no change, but
  \<open>get_nado_position\<close> has already turned the failure into \<open>None\<close>, and \<open>None\<close>
  differs from a baseline that shows a position: one failed read is reported as a fill.
\<close>

theorem monitor_read_error_reported_as_fill:
  "get_nado_position_body broken_page ''BTC'' = Raises UIError
   \<and> get_nado_position broken_page ''BTC'' = Returns None
   \<and> monitor_order_fill [(0, broken_page)] ''BTC'' (Some ''BTC 0.0010'') (1 / 2) 300 30
       = Some Filled"
  by code_simp

section \<open>Cancelling orders\<close>

lemma cancel_all_orders_eq: "cancel_all_orders page symbol = click_open_orders_button page symbol"
  unfolding cancel_all_orders_def cancel_all_orders_body_def
  by (simp add: Let_def split: outcome.splits option.splits)

text \<open>
  C9, as the code has it. With no orders open, \<open>cancel_all_orders\<close> answers what
  \<open>click_open_orders_button\<close> answers: success when the Open Orders tab could be
  clicked, failure when it could not be found or clicked.
\<close>

theorem cancel_all_orders_without_orders:
  assumes "no_open_orders page"
  shows "cancel_all_orders page symbol = click_open_orders_button page symbol"
  using assms unfolding cancel_all_orders_def cancel_all_orders_body_def no_open_orders_def
  by (simp add: Let_def split: outcome.splits option.splits)

lemma orders_tab_page_no_orders: "no_open_orders orders_tab_page"
  by code_simp

lemma orders_tab_page_click: "click_open_orders_button orders_tab_page ''BTC''"
  by code_simp

theorem cancel_all_orders_without_orders_witness:
  "no_open_orders orders_tab_page \<and> cancel_all_orders orders_tab_page ''BTC''"
  using cancel_all_orders_without_orders [OF orders_tab_page_no_orders, of "''BTC''"]
    orders_tab_page_no_orders orders_tab_page_click
  by simp

text \<open>
  C9 as stated fails: on a page without orders and without the Open Orders tab the
  answer is failure.
\<close>

theorem cancel_all_orders_counterexample:
  "no_open_orders blank_page \<and> \<not> cancel_all_orders blank_page ''BTC''"
  by code_simp


section \<open>The retry loop, turn by turn\<close>

declare retry_loop.simps [simp del]

lemma retry_loop_done:
  "\<not> retry_count < max_retries \<Longrightarrow>
   retry_loop mon env symbol order_size offset direction max_retries retry_count
     = ([], Some (Returns False))"
  by (subst retry_loop.simps) simp

lemma retry_loop_stop:
  "retry_count < max_retries \<Longrightarrow>
   retry_iteration mon (env (nat retry_count)) symbol order_size offset direction retry_count
     = (evs, Stop r) \<Longrightarrow>
   retry_loop mon env symbol order_size offset direction max_retries retry_count = (evs, Some r)"
  by (subst retry_loop.simps) simp

lemma retry_loop_blocked:
  "retry_count < max_retries \<Longrightarrow>
   retry_iteration mon (env (nat retry_count)) symbol order_size offset direction retry_count
     = (evs, Blocked) \<Longrightarrow>
   retry_loop mon env symbol order_size offset direction max_retries retry_count = (evs, None)"
  by (subst retry_loop.simps) simp

lemma retry_loop_retry:
  "retry_count < max_retries \<Longrightarrow>
   retry_iteration mon (env (nat retry_count)) symbol order_size offset direction retry_count
     = (evs, Retry) \<Longrightarrow>
   retry_loop mon env symbol order_size offset direction max_retries retry_count
     = (evs @ fst (retry_loop mon env symbol order_size offset direction max_retries
                     (retry_count + 1)),
        snd (retry_loop mon env symbol order_size offset direction max_retries
               (retry_count + 1)))"
  by (subst retry_loop.simps) (simp add: case_prod_unfold)

lemmas retry_iteration_splits =
  outcome.splits option.splits bool.splits monitor_result.splits prod.splits py_exn.splits

lemma submissions_append [simp]: "submissions (xs @ ys) = submissions xs + submissions ys"
  by (simp add: submissions_def)

lemma submissions_Nil [simp]: "submissions [] = 0"
  by (simp add: submissions_def)

lemma submissions_Cons [simp]:
  "submissions (e # evs) = (if is_submission e then 1 else 0) + submissions evs"
  by (simp add: submissions_def)

lemma retry_iteration_submissions:
  "submissions (fst (retry_iteration mon a symbol order_size offset direction retry_count)) \<le> 1"
  unfolding retry_iteration_def
  by (simp add: Let_def split: retry_iteration_splits)

lemma retry_iteration_retry_submissions:
  "retry_iteration mon a symbol order_size offset direction retry_count = (evs, Retry) \<Longrightarrow>
   submissions evs = 1"
  unfolding retry_iteration_def
  by (auto simp: Let_def split: retry_iteration_splits)

lemma retry_iteration_retry_order:
  "retry_iteration mon a symbol order_size offset direction retry_count = (evs, Retry) \<Longrightarrow>
   0 < retry_count \<or> \<not> outstanding \<Longrightarrow>
   cancel_precedes_resubmission outstanding (evs @ rest)
     = cancel_precedes_resubmission True rest"
  unfolding retry_iteration_def
  by (cases "0 < retry_count") (auto simp: Let_def split: retry_iteration_splits)

lemma retry_iteration_order:
  "0 < retry_count \<or> \<not> outstanding \<Longrightarrow>
   cancel_precedes_resubmission outstanding
     (fst (retry_iteration mon a symbol order_size offset direction retry_count))"
  unfolding retry_iteration_def
  by (cases "0 < retry_count") (auto simp: Let_def split: retry_iteration_splits)

lemma retry_iteration_no_hedge:
  "\<not> hedge_attempted (fst (retry_iteration mon a symbol order_size offset direction retry_count))"
  unfolding retry_iteration_def hedge_attempted_def
  by (simp add: Let_def split: retry_iteration_splits)


lemma retry_loop_submissions:
  "int (submissions (fst (retry_loop mon env symbol order_size offset direction max_retries
                            retry_count)))
     \<le> max 0 (max_retries - retry_count)"
proof (induction mon env symbol order_size offset direction max_retries retry_count
       rule: retry_loop.induct)
  case (1 mon env symbol order_size offset direction max_retries retry_count)
  show ?case
  proof (cases "retry_count < max_retries")
    case False
    then show ?thesis by (simp add: retry_loop_done)
  next
    case True
    obtain evs step where it:
      "retry_iteration mon (env (nat retry_count)) symbol order_size offset direction retry_count
         = (evs, step)"
      by (cases "retry_iteration mon (env (nat retry_count)) symbol order_size offset direction
                   retry_count")
    have one: "submissions evs \<le> 1"
      using retry_iteration_submissions
        [of mon "env (nat retry_count)" symbol order_size offset direction retry_count]
      by (simp add: it)
    show ?thesis
    proof (cases step)
      case (Stop r)
      with True it one show ?thesis by (simp add: retry_loop_stop)
    next
      case Blocked
      with True it one show ?thesis by (simp add: retry_loop_blocked)
    next
      case Retry
      from "1.IH" [OF True it [symmetric] Retry]
      have "int (submissions (fst (retry_loop mon env symbol order_size offset direction
                                     max_retries (retry_count + 1))))
              \<le> max 0 (max_retries - (retry_count + 1))" .
      with True it one Retry show ?thesis
        by (simp add: retry_loop_retry)
    qed
  qed
qed

lemma retry_loop_order:
  "0 \<le> retry_count \<Longrightarrow> 0 < retry_count \<or> \<not> outstanding \<Longrightarrow>
   cancel_precedes_resubmission outstanding
     (fst (retry_loop mon env symbol order_size offset direction max_retries retry_count))"
proof (induction mon env symbol order_size offset direction max_retries retry_count
       arbitrary: outstanding rule: retry_loop.induct)
  case (1 mon env symbol order_size offset direction max_retries retry_count)
  show ?case
  proof (cases "retry_count < max_retries")
    case False
    then show ?thesis by (simp add: retry_loop_done)
  next
    case True
    obtain evs step where it:
      "retry_iteration mon (env (nat retry_count)) symbol order_size offset direction retry_count
         = (evs, step)"
      by (cases "retry_iteration mon (env (nat retry_count)) symbol order_size offset direction
                   retry_count")
    have ord: "cancel_precedes_resubmission outstanding evs"
      using retry_iteration_order [OF "1.prems"(2),
          of mon "env (nat retry_count)" symbol order_size offset direction]
      by (simp add: it)
    show ?thesis
    proof (cases step)
      case (Stop r)
      with True it ord show ?thesis by (simp add: retry_loop_stop)
    next
      case Blocked
      with True it ord show ?thesis by (simp add: retry_loop_blocked)
    next
      case Retry
      from "1.prems"(1) have next_turn: "0 \<le> retry_count + 1" "0 < retry_count + 1 \<or> \<not> True"
        by simp_all
      have "cancel_precedes_resubmission True
              (fst (retry_loop mon env symbol order_size offset direction max_retries
                      (retry_count + 1)))"
        by (rule "1.IH" [OF True it [symmetric] Retry next_turn])
      moreover
      from it Retry have "retry_iteration mon (env (nat retry_count)) symbol order_size offset
          direction retry_count = (evs, Retry)"
        by simp
      note retry_iteration_retry_order [OF this "1.prems"(2)]
      ultimately show ?thesis
        using True it Retry by (simp add: retry_loop_retry)
    qed
  qed
qed

lemma retry_loop_no_hedge:
  "\<not> hedge_attempted
       (fst (retry_loop mon env symbol order_size offset direction max_retries retry_count))"
proof (induction mon env symbol order_size offset direction max_retries retry_count
       rule: retry_loop.induct)
  case (1 mon env symbol order_size offset direction max_retries retry_count)
  show ?case
  proof (cases "retry_count < max_retries")
    case False
    then show ?thesis by (simp add: retry_loop_done hedge_attempted_def)
  next
    case True
    obtain evs step where it:
      "retry_iteration mon (env (nat retry_count)) symbol order_size offset direction retry_count
         = (evs, step)"
      by (cases "retry_iteration mon (env (nat retry_count)) symbol order_size offset direction
                   retry_count")
    have none: "\<not> hedge_attempted evs"
      using retry_iteration_no_hedge
        [of mon "env (nat retry_count)" symbol order_size offset direction retry_count]
      by (simp add: it)
    show ?thesis
    proof (cases step)
      case (Stop r)
      with True it none show ?thesis by (simp add: retry_loop_stop)
    next
      case Blocked
      with True it none show ?thesis by (simp add: retry_loop_blocked)
    next
      case Retry
      from "1.IH" [OF True it [symmetric] Retry] none True it Retry show ?thesis
        by (auto simp: retry_loop_retry hedge_attempted_def)
    qed
  qed
qed

text \<open>After \<open>k\<close> turns that each end in a retry, the loop is at \<open>retry_count = k\<close>.\<close>

lemma retry_loop_after_retries:
  assumes "\<forall>i<k. snd (turn mon env symbol order_size offset direction i) = Retry"
      and "int k \<le> max_retries"
  shows "snd (retry_loop mon env symbol order_size offset direction max_retries 0)
           = snd (retry_loop mon env symbol order_size offset direction max_retries (int k))
       \<and> submissions (fst (retry_loop mon env symbol order_size offset direction max_retries 0))
           = k + submissions (fst (retry_loop mon env symbol order_size offset direction
                                     max_retries (int k)))"
  using assms
proof (induction k)
  case 0
  show ?case by simp
next
  case (Suc k)
  then have IH: "snd (retry_loop mon env symbol order_size offset direction max_retries 0)
           = snd (retry_loop mon env symbol order_size offset direction max_retries (int k))
       \<and> submissions (fst (retry_loop mon env symbol order_size offset direction max_retries 0))
           = k + submissions (fst (retry_loop mon env symbol order_size offset direction
                                     max_retries (int k)))"
    by simp
  from Suc.prems have lt: "int k < max_retries" by simp
  from Suc.prems have "snd (turn mon env symbol order_size offset direction k) = Retry"
    by simp
  then obtain evs where it:
    "retry_iteration mon (env (nat (int k))) symbol order_size offset direction (int k)
       = (evs, Retry)"
    unfolding turn_def
    by (cases "retry_iteration mon (env k) symbol order_size offset direction (int k)") simp
  have "submissions evs = 1"
    by (rule retry_iteration_retry_submissions [OF it])
  moreover note retry_loop_retry [where env = env and retry_count = "int k"
      and max_retries = max_retries and mon = mon, OF lt it]
  ultimately show ?case
    using IH by (simp add: add.commute)
qed

section \<open>How a turn ends\<close>

lemma retry_iteration_monitored:
  assumes "get_and_calculate_order_price (api_prices a) offset direction
             = Returns (Some (price_num, order_price))"
      and "get_nado_position (position_page a) symbol = Returns initial_position"
      and "execute_nado_order (order_form a) symbol order_price order_size direction
             = Returns True"
  shows "snd (retry_iteration mon a symbol order_size offset direction retry_count)
           = (case mon (polls a) symbol initial_position of
                None \<Rightarrow> Blocked
              | Some Filled \<Rightarrow> Stop (Returns True)
              | Some TimedOut \<Rightarrow> Stop (Returns False)
              | Some NeedsResubmit \<Rightarrow> Retry)"
    and "submissions (fst (retry_iteration mon a symbol order_size offset direction retry_count))
           = 1"
  using assms unfolding retry_iteration_def
  by (simp_all add: Let_def split: option.splits monitor_result.splits)

lemma retry_iteration_submit_failed:
  assumes "get_and_calculate_order_price (api_prices a) offset direction
             = Returns (Some (price_num, order_price))"
      and "get_nado_position (position_page a) symbol = Returns initial_position"
      and "execute_nado_order (order_form a) symbol order_price order_size direction
             = Returns False"
  shows "snd (retry_iteration mon a symbol order_size offset direction retry_count)
           = Stop (Returns False)"
    and "submissions (fst (retry_iteration mon a symbol order_size offset direction retry_count))
           = 1"
  using assms unfolding retry_iteration_def
  by (simp_all add: Let_def)

lemma retry_iteration_true_only_filled:
  assumes "snd (retry_iteration mon a symbol order_size offset direction retry_count)
             = Stop (Returns True)"
  shows "\<exists>initial_position.
           get_nado_position (position_page a) symbol = Returns initial_position
           \<and> mon (polls a) symbol initial_position = Some Filled"
  using assms unfolding retry_iteration_def
  by (auto simp: Let_def split: retry_iteration_splits)

lemma retry_loop_stops_at:
  assumes "\<forall>i<k. snd (turn mon env symbol order_size offset direction i) = Retry"
      and "int k < max_retries"
      and "snd (turn mon env symbol order_size offset direction k) = Stop r"
  shows "snd (retry_loop mon env symbol order_size offset direction max_retries 0) = Some r"
    and "submissions (fst (retry_loop mon env symbol order_size offset direction max_retries 0))
           = k + submissions (fst (turn mon env symbol order_size offset direction k))"
proof -
  from assms(2) have le: "int k \<le> max_retries" by simp
  obtain evs where it:
    "retry_iteration mon (env (nat (int k))) symbol order_size offset direction (int k)
       = (evs, Stop r)"
    using assms(3) unfolding turn_def
    by (cases "retry_iteration mon (env k) symbol order_size offset direction (int k)") simp
  note stop = retry_loop_stop [where env = env and retry_count = "int k"
      and max_retries = max_retries and mon = mon, OF assms(2) it]
  have evs: "fst (turn mon env symbol order_size offset direction k) = evs"
    using it unfolding turn_def by simp
  from retry_loop_after_retries [OF assms(1) le] stop evs
  show "snd (retry_loop mon env symbol order_size offset direction max_retries 0) = Some r"
    and "submissions (fst (retry_loop mon env symbol order_size offset direction max_retries 0))
           = k + submissions (fst (turn mon env symbol order_size offset direction k))"
    by simp_all
qed

lemma retry_loop_exhausted:
  assumes "\<forall>i<n. snd (turn mon env symbol order_size offset direction i) = Retry"
  shows "snd (retry_loop mon env symbol order_size offset direction (int n) 0)
           = Some (Returns False)"
    and "submissions (fst (retry_loop mon env symbol order_size offset direction (int n) 0)) = n"
  using retry_loop_after_retries [OF assms, of "int n"]
  by (simp_all add: retry_loop_done)

lemma retry_loop_true_from:
  "snd (retry_loop mon env symbol order_size offset direction max_retries retry_count)
     = Some (Returns True) \<Longrightarrow>
   0 \<le> retry_count \<Longrightarrow>
   \<exists>k. retry_count \<le> int k \<and> int k < max_retries
       \<and> (\<forall>i<k. retry_count \<le> int i
              \<longrightarrow> snd (turn mon env symbol order_size offset direction i) = Retry)
       \<and> snd (turn mon env symbol order_size offset direction k) = Stop (Returns True)"
proof (induction mon env symbol order_size offset direction max_retries retry_count
       rule: retry_loop.induct)
  case (1 mon env symbol order_size offset direction max_retries retry_count)
  show ?case
  proof (cases "retry_count < max_retries")
    case False
    with "1.prems" show ?thesis by (simp add: retry_loop_done)
  next
    case True
    obtain evs step where it:
      "retry_iteration mon (env (nat retry_count)) symbol order_size offset direction retry_count
         = (evs, step)"
      by (cases "retry_iteration mon (env (nat retry_count)) symbol order_size offset direction
                   retry_count")
    from "1.prems"(2) have here: "int (nat retry_count) = retry_count" by simp
    have turn_here: "snd (turn mon env symbol order_size offset direction (nat retry_count)) = step"
      unfolding turn_def using it here by simp
    show ?thesis
    proof (cases step)
      case (Stop r)
      with True it "1.prems" have "r = Returns True"
        by (simp add: retry_loop_stop)
      with Stop turn_here True here show ?thesis
        by (intro exI [of _ "nat retry_count"]) auto
    next
      case Blocked
      with True it "1.prems" show ?thesis by (simp add: retry_loop_blocked)
    next
      case Retry
      from True it Retry "1.prems"(1)
      have "snd (retry_loop mon env symbol order_size offset direction max_retries
                   (retry_count + 1)) = Some (Returns True)"
        by (simp add: retry_loop_retry)
      moreover from "1.prems"(2) have "0 \<le> retry_count + 1" by simp
      ultimately obtain k where k: "retry_count + 1 \<le> int k" "int k < max_retries"
        "\<forall>i<k. retry_count + 1 \<le> int i
            \<longrightarrow> snd (turn mon env symbol order_size offset direction i) = Retry"
        "snd (turn mon env symbol order_size offset direction k) = Stop (Returns True)"
        using "1.IH" [OF True it [symmetric] Retry] by blast
      have "\<forall>i<k. retry_count \<le> int i
            \<longrightarrow> snd (turn mon env symbol order_size offset direction i) = Retry"
      proof (intro allI impI)
        fix i assume "i < k" "retry_count \<le> int i"
        show "snd (turn mon env symbol order_size offset direction i) = Retry"
        proof (cases "retry_count = int i")
          case True
          then have "nat retry_count = i" by simp
          with turn_here Retry show ?thesis by simp
        next
          case False
          with \<open>retry_count \<le> int i\<close> have "retry_count + 1 \<le> int i" by simp
          with k(3) \<open>i < k\<close> show ?thesis by simp
        qed
      qed
      with k show ?thesis
        by (intro exI [of _ k]) auto
    qed
  qed
qed

text \<open>
  C6. From \<open>retry_count = 0\<close> the loop submits at most \<open>max_retries\<close> orders (none
  when \<open>max_retries \<le> 0\<close>), hence resubmits fewer than \<open>max_retries\<close> times; no
  order is submitted while an earlier one has not been followed by
  \<open>cancel_all_orders\<close>; when the turns before turn \<open>k\<close> all ended in a retry and turn
  \<open>k\<close> stops, the function returns what that turn returned, having submitted
  \<open>k\<close> orders before it and none after it; and a turn that has a price and a baseline
  stops with failure when the submission fails, and otherwise ends as the monitor
  says: success on Filled, failure on TimedOut, a retry on NeedsResubmit.
\<close>

theorem retry_loop_discipline:
  "int (submissions (fst (retry_loop mon env symbol order_size offset direction max_retries 0)))
     \<le> max 0 max_retries
   \<and> cancel_precedes_resubmission False
       (fst (retry_loop mon env symbol order_size offset direction max_retries 0))
   \<and> (\<forall>k r. (\<forall>i<k. snd (turn mon env symbol order_size offset direction i) = Retry)
            \<and> int k < max_retries
            \<and> snd (turn mon env symbol order_size offset direction k) = Stop r
          \<longrightarrow> snd (retry_loop mon env symbol order_size offset direction max_retries 0) = Some r
            \<and> submissions (fst (retry_loop mon env symbol order_size offset direction
                                    max_retries 0))
                = k + submissions (fst (turn mon env symbol order_size offset direction k)))
   \<and> (\<forall>k price_num order_price initial_position.
          get_and_calculate_order_price (api_prices (env k)) offset direction
            = Returns (Some (price_num, order_price))
          \<and> get_nado_position (position_page (env k)) symbol = Returns initial_position
          \<longrightarrow> (execute_nado_order (order_form (env k)) symbol order_price order_size direction
                 = Returns False
               \<longrightarrow> snd (turn mon env symbol order_size offset direction k) = Stop (Returns False)
                 \<and> submissions (fst (turn mon env symbol order_size offset direction k)) = 1)
            \<and> (execute_nado_order (order_form (env k)) symbol order_price order_size direction
                 = Returns True
               \<longrightarrow> snd (turn mon env symbol order_size offset direction k)
                   = (case mon (polls (env k)) symbol initial_position of
                        None \<Rightarrow> Blocked
                      | Some Filled \<Rightarrow> Stop (Returns True)
                      | Some TimedOut \<Rightarrow> Stop (Returns False)
                      | Some NeedsResubmit \<Rightarrow> Retry)
                 \<and> submissions (fst (turn mon env symbol order_size offset direction k)) = 1))"
proof (intro conjI allI impI)
  show "int (submissions (fst (retry_loop mon env symbol order_size offset direction
                                 max_retries 0))) \<le> max 0 max_retries"
    using retry_loop_submissions [of mon env symbol order_size offset direction max_retries 0]
    by simp
next
  show "cancel_precedes_resubmission False
          (fst (retry_loop mon env symbol order_size offset direction max_retries 0))"
    by (rule retry_loop_order) simp_all
next
  fix k r
  assume h: "(\<forall>i<k. snd (turn mon env symbol order_size offset direction i) = Retry)
            \<and> int k < max_retries
            \<and> snd (turn mon env symbol order_size offset direction k) = Stop r"
  then show "snd (retry_loop mon env symbol order_size offset direction max_retries 0) = Some r"
    by (intro retry_loop_stops_at(1) [of k]) simp_all
  from h show "submissions (fst (retry_loop mon env symbol order_size offset direction
                                    max_retries 0))
                = k + submissions (fst (turn mon env symbol order_size offset direction k))"
    by (intro retry_loop_stops_at(2) [of k _ _ _ _ _ _ _ r]) simp_all
next
  fix k price_num order_price initial_position
  assume h: "get_and_calculate_order_price (api_prices (env k)) offset direction
            = Returns (Some (price_num, order_price))
          \<and> get_nado_position (position_page (env k)) symbol = Returns initial_position"
  {
    assume f: "execute_nado_order (order_form (env k)) symbol order_price order_size direction
                 = Returns False"
    from h f show "snd (turn mon env symbol order_size offset direction k) = Stop (Returns False)"
      unfolding turn_def by (intro retry_iteration_submit_failed(1)) simp_all
    from h f show "submissions (fst (turn mon env symbol order_size offset direction k)) = 1"
      unfolding turn_def by (intro retry_iteration_submit_failed(2)) simp_all
  }
  {
    assume s: "execute_nado_order (order_form (env k)) symbol order_price order_size direction
                 = Returns True"
    from h s show "snd (turn mon env symbol order_size offset direction k)
                   = (case mon (polls (env k)) symbol initial_position of
                        None \<Rightarrow> Blocked
                      | Some Filled \<Rightarrow> Stop (Returns True)
                      | Some TimedOut \<Rightarrow> Stop (Returns False)
                      | Some NeedsResubmit \<Rightarrow> Retry)"
      unfolding turn_def by (intro retry_iteration_monitored(1)) simp_all
    from h s show "submissions (fst (turn mon env symbol order_size offset direction k)) = 1"
      unfolding turn_def by (intro retry_iteration_monitored(2)) simp_all
  }
qed


section \<open>The example markets\<close>

lemma example_price_long:
  "get_and_calculate_order_price (Some example_quote) (Fin (- 5)) ''long''
     = Returns (Some (9060200, 9060700))"
  by code_simp

lemma example_price_short:
  "get_and_calculate_order_price (Some example_quote) (Fin (- 5)) ''short''
     = Returns (Some (9060400, 9060900))"
  by code_simp

lemma good_form_submits:
  "execute_nado_order good_form symbol order_price order_size direction = Returns True"
  by (simp add: execute_nado_order_def good_form_def)

lemma position_shown_later:
  "get_nado_position (page_showing ''BTC 0.0011'') ''BTC'' = Returns (Some ''BTC 0.0011'')"
  by code_simp

lemma stale_monitor: "the_monitor stale_polls ''BTC'' (Some ''BTC 0.0010'') = Some NeedsResubmit"
  by (simp add: the_monitor_def stale_polls_def position_shown)

lemma filled_monitor: "the_monitor filled_polls ''BTC'' (Some ''BTC 0.0010'') = Some Filled"
  by (simp add: the_monitor_def filled_polls_def position_shown position_shown_later)

lemma example_turn_long:
  "snd (retry_iteration the_monitor (example_attempt observations) ''BTC'' ''0.0001''
          (Fin (- 5)) ''long'' retry_count)
     = (case the_monitor observations ''BTC'' (Some ''BTC 0.0010'') of
          None \<Rightarrow> Blocked
        | Some Filled \<Rightarrow> Stop (Returns True)
        | Some TimedOut \<Rightarrow> Stop (Returns False)
        | Some NeedsResubmit \<Rightarrow> Retry)"
  using retry_iteration_monitored(1) [of "example_attempt observations" "Fin (- 5)" "''long''"
      9060200 9060700 "''BTC''" "Some ''BTC 0.0010''" "''0.0001''" the_monitor retry_count]
  by (simp add: example_attempt_def example_price_long position_shown good_form_submits)

lemma example_turn_short:
  "snd (retry_iteration the_monitor (example_attempt observations) ''BTC'' ''0.0001''
          (Fin (- 5)) ''short'' retry_count)
     = (case the_monitor observations ''BTC'' (Some ''BTC 0.0010'') of
          None \<Rightarrow> Blocked
        | Some Filled \<Rightarrow> Stop (Returns True)
        | Some TimedOut \<Rightarrow> Stop (Returns False)
        | Some NeedsResubmit \<Rightarrow> Retry)"
  using retry_iteration_monitored(1) [of "example_attempt observations" "Fin (- 5)" "''short''"
      9060400 9060900 "''BTC''" "Some ''BTC 0.0010''" "''0.0001''" the_monitor retry_count]
  by (simp add: example_attempt_def example_price_short position_shown good_form_submits)

lemma example_turn_submissions:
  "submissions (fst (retry_iteration the_monitor (example_attempt observations) ''BTC''
                       ''0.0001'' (Fin (- 5)) ''long'' retry_count)) = 1"
  using retry_iteration_monitored(2) [of "example_attempt observations" "Fin (- 5)" "''long''"
      9060200 9060700 "''BTC''" "Some ''BTC 0.0010''" "''0.0001''" the_monitor retry_count]
  by (simp add: example_attempt_def example_price_long position_shown good_form_submits)

lemma stale_turn_long:
  "snd (turn the_monitor stale_env ''BTC'' ''0.0001'' (Fin (- 5)) ''long'' i) = Retry"
  by (simp add: turn_def stale_env_def example_turn_long stale_monitor)

lemma stale_turn_short:
  "snd (turn the_monitor stale_env ''BTC'' ''0.0001'' (Fin (- 5)) ''short'' i) = Retry"
  by (simp add: turn_def stale_env_def example_turn_short stale_monitor)

lemma refill_turn_0:
  "snd (turn the_monitor refill_env ''BTC'' ''0.0001'' (Fin (- 5)) ''long'' 0) = Retry"
  by (simp add: turn_def refill_env_def example_turn_long stale_monitor)

lemma refill_turn_1:
  "snd (turn the_monitor refill_env ''BTC'' ''0.0001'' (Fin (- 5)) ''long'' 1)
     = Stop (Returns True)"
  "submissions (fst (turn the_monitor refill_env ''BTC'' ''0.0001'' (Fin (- 5)) ''long'' 1)) = 1"
  by (simp_all add: turn_def refill_env_def example_turn_long example_turn_submissions
        filled_monitor)

theorem retry_loop_discipline_witness:
  "snd (retry_loop the_monitor refill_env ''BTC'' ''0.0001'' (Fin (- 5)) ''long'' 3 0)
     = Some (Returns True)
   \<and> submissions (fst (retry_loop the_monitor refill_env ''BTC'' ''0.0001'' (Fin (- 5))
                         ''long'' 3 0)) = 2"
proof -
  have earlier: "\<forall>i<1. snd (turn the_monitor refill_env ''BTC'' ''0.0001'' (Fin (- 5)) ''long'' i)
                   = Retry"
    using refill_turn_0 by simp
  note third = retry_loop_discipline [of the_monitor refill_env "''BTC''" "''0.0001''"
      "Fin (- 5)" "''long''" 3, THEN conjunct2, THEN conjunct2, THEN conjunct1, rule_format,
      of 1 "Returns True"]
  from third earlier refill_turn_1 show ?thesis
    by simp
qed

section \<open>The two trade methods\<close>

lemma hedge_attempted_simps [simp]:
  "hedge_attempted [] = False"
  "hedge_attempted (xs @ ys) = (hedge_attempted xs \<or> hedge_attempted ys)"
  by (auto simp: hedge_attempted_def)

lemma execute_variational_short_events:
  "submissions (fst (execute_variational_short ps cs)) = 0"
  "hedge_attempted (fst (execute_variational_short ps cs))"
  "\<exists>evs. fst (execute_variational_short ps cs) = ExecuteVariationalShort # evs"
  unfolding execute_variational_short_def hedge_attempted_def
  by (simp_all split: option.splits list.splits)

lemma execute_variational_long_events:
  "submissions (fst (execute_variational_long ps cs)) = 0"
  "hedge_attempted (fst (execute_variational_long ps cs))"
  unfolding execute_variational_long_def hedge_attempted_def
  by (simp_all split: option.splits list.splits)

lemma execute_variational_short_returns:
  "\<exists>b. snd (execute_variational_short ps (c # cs)) = Returns b"
  unfolding execute_variational_short_def
  by (auto split: option.splits)

lemma execute_variational_long_returns:
  "\<exists>b. snd (execute_variational_long ps (c # cs)) = Returns b"
  unfolding execute_variational_long_def
  by (auto split: option.splits)

lemma with_retry_no_hedge:
  "\<not> hedge_attempted
       (fst (execute_nado_order_with_retry env symbol order_size offset direction max_retries))"
  unfolding execute_nado_order_with_retry_def by (rule retry_loop_no_hedge)

lemma with_retry_submissions:
  "int (submissions
          (fst (execute_nado_order_with_retry env symbol order_size offset direction max_retries)))
     \<le> max 0 max_retries"
  unfolding execute_nado_order_with_retry_def
  using retry_loop_submissions [of the_monitor env symbol order_size offset direction
      max_retries 0]
  by simp

text \<open>What a trade method does once the retry loop has returned.\<close>

lemma trade_method_returned:
  assumes "nado ps = Some env" and "config_price_offset c = Returns offset"
      and "execute_nado_order_with_retry env (cfg_symbol c) (config_size c) offset direction
             max_retries = (evs, Some (Returns is_filled))"
  shows "trade_method direction max_retries hedge ps (c # cs)
           = (if is_filled
              then (evs @ fst (hedge ps (c # cs)),
                    Some (case snd (hedge ps (c # cs)) of
                            Raises e \<Rightarrow> Raises e
                          | Returns b \<Rightarrow> Returns ()))
              else (evs, Some (Returns ())))"
  using assms unfolding trade_method_def
  by (cases "hedge ps (c # cs)") (simp split: outcome.splits)

lemma trade_method_hedge_iff:
  assumes "\<And>ps cs. hedge_attempted (fst (hedge ps cs))"
  shows "hedge_attempted (fst (trade_method direction max_retries hedge ps cs))
           = (\<exists>env c rest offset.
                cs = c # rest \<and> nado ps = Some env \<and> config_price_offset c = Returns offset
                \<and> snd (execute_nado_order_with_retry env (cfg_symbol c) (config_size c) offset
                         direction max_retries) = Some (Returns True))"
proof (cases cs)
  case Nil
  then show ?thesis by (simp add: trade_method_def)
next
  case (Cons c rest)
  show ?thesis
  proof (cases "nado ps")
    case None
    with Cons show ?thesis by (simp add: trade_method_def)
  next
    case (Some env)
    show ?thesis
    proof (cases "config_price_offset c")
      case (Raises e)
      with Cons Some show ?thesis by (simp add: trade_method_def)
    next
      case (Returns offset)
      obtain evs r where run:
        "execute_nado_order_with_retry env (cfg_symbol c) (config_size c) offset direction
           max_retries = (evs, r)"
        by (cases "execute_nado_order_with_retry env (cfg_symbol c) (config_size c) offset
                     direction max_retries")
      have quiet: "\<not> hedge_attempted evs"
        using with_retry_no_hedge [of env "cfg_symbol c" "config_size c" offset direction
            max_retries]
        by (simp add: run)
      show ?thesis
      proof (cases r)
        case None
        with Cons Some Returns run quiet show ?thesis
          by (simp add: trade_method_def)
      next
        case (Some res)
        show ?thesis
        proof (cases res)
          case (Raises e)
          with Cons \<open>nado ps = Some env\<close> Returns run quiet \<open>r = Some res\<close> show ?thesis
            by (simp add: trade_method_def)
        next
          case (Returns is_filled)
          from run \<open>r = Some res\<close> Returns
          have "execute_nado_order_with_retry env (cfg_symbol c) (config_size c) offset direction
                  max_retries = (evs, Some (Returns is_filled))"
            by simp
          from trade_method_returned [OF \<open>nado ps = Some env\<close>
              \<open>config_price_offset c = Returns offset\<close> this, of hedge rest]
            Cons \<open>nado ps = Some env\<close> \<open>config_price_offset c = Returns offset\<close> run
            \<open>r = Some res\<close> Returns quiet assms [of ps "c # rest"]
          show ?thesis
            by (cases is_filled) simp_all
        qed
      qed
    qed
  qed
qed

lemma trade_method_submissions:
  assumes "\<And>ps cs. submissions (fst (hedge ps cs)) = 0"
  shows "int (submissions (fst (trade_method direction max_retries hedge ps cs)))
           \<le> max 0 max_retries"
proof (cases cs)
  case Nil
  then show ?thesis by (simp add: trade_method_def)
next
  case (Cons c rest)
  show ?thesis
  proof (cases "nado ps")
    case None
    with Cons show ?thesis by (simp add: trade_method_def)
  next
    case (Some env)
    show ?thesis
    proof (cases "config_price_offset c")
      case (Raises e)
      with Cons Some show ?thesis by (simp add: trade_method_def)
    next
      case (Returns offset)
      obtain evs r where run:
        "execute_nado_order_with_retry env (cfg_symbol c) (config_size c) offset direction
           max_retries = (evs, r)"
        by (cases "execute_nado_order_with_retry env (cfg_symbol c) (config_size c) offset
                     direction max_retries")
      have bound: "int (submissions evs) \<le> max 0 max_retries"
        using with_retry_submissions [of env "cfg_symbol c" "config_size c" offset direction
            max_retries]
        by (simp add: run)
      obtain hevs hr where h: "hedge ps (c # rest) = (hevs, hr)"
        by (cases "hedge ps (c # rest)")
      with assms [of ps "c # rest"] have "submissions hevs = 0" by simp
      with Cons Some Returns run bound h show ?thesis
        by (simp add: trade_method_def split: option.splits outcome.splits)
    qed
  qed
qed

lemma with_retry_exhausted:
  assumes "\<forall>i<n. snd (turn the_monitor env symbol order_size offset direction i) = Retry"
  shows "execute_nado_order_with_retry env symbol order_size offset direction (int n)
           = (fst (execute_nado_order_with_retry env symbol order_size offset direction (int n)),
              Some (Returns False))"
    and "submissions (fst (execute_nado_order_with_retry env symbol order_size offset direction
                             (int n))) = n"
  unfolding execute_nado_order_with_retry_def
  using retry_loop_exhausted [OF assms] by (simp_all add: prod_eq_iff)

lemma trade_method_exhausted:
  assumes "nado ps = Some env" and "config_price_offset c = Returns offset"
      and "\<forall>i<n. snd (turn the_monitor env (cfg_symbol c) (config_size c) offset direction i)
                  = Retry"
  shows "snd (trade_method direction (int n) hedge ps (c # cs)) = Some (Returns ())"
    and "\<not> hedge_attempted (fst (trade_method direction (int n) hedge ps (c # cs)))"
    and "submissions (fst (trade_method direction (int n) hedge ps (c # cs))) = n"
  using trade_method_returned [OF assms(1,2) with_retry_exhausted(1) [OF assms(3)], of hedge cs]
    with_retry_exhausted(2) [OF assms(3)]
    with_retry_no_hedge [of env "cfg_symbol c" "config_size c" offset direction "int n"]
  by simp_all

lemma btc_config_fields:
  "cfg_symbol btc_config = ''BTC''" "config_size btc_config = ''0.0001''"
  "config_price_offset btc_config = Returns (Fin (- 5))"
  by (simp_all add: btc_config_def config_size_def config_price_offset_def)

text \<open>
  C10. \<open>method1\<close> never submits more than 3 orders and \<open>method2\<close> never more than
  999; in a market where no order fills within the retry timeout, \<open>method1\<close> submits
  3 orders and \<open>method2\<close> 999, for the same configuration and the same monitor
  outcomes.
\<close>

theorem retry_budgets_differ:
  "(\<forall>ps cs. submissions (fst (method1 ps cs)) \<le> 3)
   \<and> (\<forall>ps cs. submissions (fst (method2 ps cs)) \<le> 999)
   \<and> submissions (fst (method1 stale_pages [btc_config])) = 3
   \<and> submissions (fst (method2 stale_pages [btc_config])) = 999"
proof (intro conjI allI)
  fix ps cs
  show "submissions (fst (method1 ps cs)) \<le> 3"
    using trade_method_submissions [of execute_variational_short "''long''" 3 ps cs]
    by (simp add: method1_def execute_variational_short_events)
  show "submissions (fst (method2 ps cs)) \<le> 999"
    using trade_method_submissions [of execute_variational_long "''short''" 999 ps cs]
    by (simp add: method2_def execute_variational_long_events)
next
  have "\<forall>i<3. snd (turn the_monitor stale_env (cfg_symbol btc_config) (config_size btc_config)
                      (Fin (- 5)) ''long'' i) = Retry"
    by (simp add: btc_config_fields stale_turn_long)
  from trade_method_exhausted(3) [where n = 3 and ps = stale_pages and env = stale_env
      and c = btc_config and hedge = execute_variational_short and cs = "[]", OF _ _ this]
  show "submissions (fst (method1 stale_pages [btc_config])) = 3"
    by (simp add: method1_def stale_pages_def btc_config_fields)
next
  have "\<forall>i<999. snd (turn the_monitor stale_env (cfg_symbol btc_config) (config_size btc_config)
                      (Fin (- 5)) ''short'' i) = Retry"
    by (simp add: btc_config_fields stale_turn_short)
  from trade_method_exhausted(3) [where n = 999 and ps = stale_pages and env = stale_env
      and c = btc_config and hedge = execute_variational_long and cs = "[]", OF _ _ this]
  show "submissions (fst (method2 stale_pages [btc_config])) = 999"
    by (simp add: method2_def stale_pages_def btc_config_fields)
qed

section \<open>The hedge follows a fill\<close>

lemma with_retry_true_only_filled:
  assumes "snd (execute_nado_order_with_retry env symbol order_size offset direction max_retries)
             = Some (Returns True)"
  shows "\<exists>k initial_position.
           int k < max_retries
           \<and> (\<forall>i<k. snd (turn the_monitor env symbol order_size offset direction i) = Retry)
           \<and> snd (turn the_monitor env symbol order_size offset direction k) = Stop (Returns True)
           \<and> get_nado_position (position_page (env k)) symbol = Returns initial_position
           \<and> the_monitor (polls (env k)) symbol initial_position = Some Filled"
proof -
  from assms have "snd (retry_loop the_monitor env symbol order_size offset direction
                          max_retries 0) = Some (Returns True)"
    unfolding execute_nado_order_with_retry_def .
  from retry_loop_true_from [OF this]
  obtain k where k: "int k < max_retries"
    "\<forall>i<k. snd (turn the_monitor env symbol order_size offset direction i) = Retry"
    "snd (turn the_monitor env symbol order_size offset direction k) = Stop (Returns True)"
    by auto
  from k(3) have "snd (retry_iteration the_monitor (env k) symbol order_size offset direction
                         (int k)) = Stop (Returns True)"
    unfolding turn_def .
  from retry_iteration_true_only_filled [OF this] k show ?thesis
    by blast
qed

text \<open>
  C7. In \<open>method1\<close> and in \<open>method2\<close> a Variational function is called exactly when
  \<open>execute_nado_order_with_retry\<close> has returned \<open>True\<close>; it returns \<open>True\<close> only
  when, after turns that all ended in a retry, a turn within the budget stopped with
  success, which happens only on the monitor's answer Filled (so not on TimedOut, not
  on a failed submission, not when the budget is used up); and when every turn of the
  budget ends in a retry, the loop returns \<open>False\<close> and the method returns normally
  without calling a Variational function.
\<close>

theorem hedge_only_after_fill:
  "(\<forall>ps cs. hedge_attempted (fst (method1 ps cs))
        = (\<exists>env c rest offset.
             cs = c # rest \<and> nado ps = Some env \<and> config_price_offset c = Returns offset
             \<and> snd (execute_nado_order_with_retry env (cfg_symbol c) (config_size c) offset
                      ''long'' 3) = Some (Returns True)))
   \<and> (\<forall>ps cs. hedge_attempted (fst (method2 ps cs))
        = (\<exists>env c rest offset.
             cs = c # rest \<and> nado ps = Some env \<and> config_price_offset c = Returns offset
             \<and> snd (execute_nado_order_with_retry env (cfg_symbol c) (config_size c) offset
                      ''short'' 999) = Some (Returns True)))
   \<and> (\<forall>env symbol order_size offset direction max_retries.
         snd (execute_nado_order_with_retry env symbol order_size offset direction max_retries)
           = Some (Returns True)
         \<longrightarrow> (\<exists>k initial_position.
                int k < max_retries
                \<and> (\<forall>i<k. snd (turn the_monitor env symbol order_size offset direction i) = Retry)
                \<and> snd (turn the_monitor env symbol order_size offset direction k)
                    = Stop (Returns True)
                \<and> get_nado_position (position_page (env k)) symbol = Returns initial_position
                \<and> the_monitor (polls (env k)) symbol initial_position = Some Filled))
   \<and> (\<forall>env symbol order_size offset direction n.
         (\<forall>i<n. snd (turn the_monitor env symbol order_size offset direction i) = Retry)
         \<longrightarrow> snd (execute_nado_order_with_retry env symbol order_size offset direction (int n))
             = Some (Returns False))
   \<and> (\<forall>ps c cs env offset.
         nado ps = Some env \<and> config_price_offset c = Returns offset
         \<and> (\<forall>i<3. snd (turn the_monitor env (cfg_symbol c) (config_size c) offset ''long'' i)
                     = Retry)
         \<longrightarrow> snd (method1 ps (c # cs)) = Some (Returns ())
           \<and> \<not> hedge_attempted (fst (method1 ps (c # cs))))
   \<and> (\<forall>ps c cs env offset.
         nado ps = Some env \<and> config_price_offset c = Returns offset
         \<and> (\<forall>i<999. snd (turn the_monitor env (cfg_symbol c) (config_size c) offset ''short'' i)
                     = Retry)
         \<longrightarrow> snd (method2 ps (c # cs)) = Some (Returns ())
           \<and> \<not> hedge_attempted (fst (method2 ps (c # cs))))"
proof (intro conjI allI impI)
  fix ps cs
  show "hedge_attempted (fst (method1 ps cs))
        = (\<exists>env c rest offset.
             cs = c # rest \<and> nado ps = Some env \<and> config_price_offset c = Returns offset
             \<and> snd (execute_nado_order_with_retry env (cfg_symbol c) (config_size c) offset
                      ''long'' 3) = Some (Returns True))"
    unfolding method1_def
    by (rule trade_method_hedge_iff) (rule execute_variational_short_events(2))
  show "hedge_attempted (fst (method2 ps cs))
        = (\<exists>env c rest offset.
             cs = c # rest \<and> nado ps = Some env \<and> config_price_offset c = Returns offset
             \<and> snd (execute_nado_order_with_retry env (cfg_symbol c) (config_size c) offset
                      ''short'' 999) = Some (Returns True))"
    unfolding method2_def
    by (rule trade_method_hedge_iff) (rule execute_variational_long_events(2))
next
  fix env :: "nat \<Rightarrow> attempt_env" and symbol order_size offset direction max_retries
  assume "snd (execute_nado_order_with_retry env symbol order_size offset direction max_retries)
           = Some (Returns True)"
  then show "\<exists>k initial_position.
                int k < max_retries
                \<and> (\<forall>i<k. snd (turn the_monitor env symbol order_size offset direction i) = Retry)
                \<and> snd (turn the_monitor env symbol order_size offset direction k)
                    = Stop (Returns True)
                \<and> get_nado_position (position_page (env k)) symbol = Returns initial_position
                \<and> the_monitor (polls (env k)) symbol initial_position = Some Filled"
    by (rule with_retry_true_only_filled)
next
  fix env :: "nat \<Rightarrow> attempt_env" and symbol order_size offset direction and n :: nat
  assume "\<forall>i<n. snd (turn the_monitor env symbol order_size offset direction i) = Retry"
  from with_retry_exhausted(1) [OF this]
  show "snd (execute_nado_order_with_retry env symbol order_size offset direction (int n))
             = Some (Returns False)"
    by (simp add: prod_eq_iff)
next
  fix ps :: pages and c :: config and cs :: "config list" and env offset
  assume h: "nado ps = Some env \<and> config_price_offset c = Returns offset
         \<and> (\<forall>i<3. snd (turn the_monitor env (cfg_symbol c) (config_size c) offset ''long'' i)
                     = Retry)"
  from h have 1: "nado ps = Some env" and 2: "config_price_offset c = Returns offset"
    and 3: "\<forall>i<3. snd (turn the_monitor env (cfg_symbol c) (config_size c) offset ''long'' i)
                = Retry"
    by simp_all
  from trade_method_exhausted(1) [where n = 3 and hedge = execute_variational_short and cs = cs, OF 1 2 3]
  show "snd (method1 ps (c # cs)) = Some (Returns ())"
    by (simp add: method1_def)
  from trade_method_exhausted(2) [where n = 3 and hedge = execute_variational_short and cs = cs, OF 1 2 3]
  show "\<not> hedge_attempted (fst (method1 ps (c # cs)))"
    by (simp add: method1_def)
next
  fix ps :: pages and c :: config and cs :: "config list" and env offset
  assume h: "nado ps = Some env \<and> config_price_offset c = Returns offset
         \<and> (\<forall>i<999. snd (turn the_monitor env (cfg_symbol c) (config_size c) offset ''short'' i)
                     = Retry)"
  from h have 1: "nado ps = Some env" and 2: "config_price_offset c = Returns offset"
    and 3: "\<forall>i<999. snd (turn the_monitor env (cfg_symbol c) (config_size c) offset ''short'' i)
                = Retry"
    by simp_all
  from trade_method_exhausted(1) [where n = 999 and hedge = execute_variational_long and cs = cs, OF 1 2 3]
  show "snd (method2 ps (c # cs)) = Some (Returns ())"
    by (simp add: method2_def)
  from trade_method_exhausted(2) [where n = 999 and hedge = execute_variational_long and cs = cs, OF 1 2 3]
  show "\<not> hedge_attempted (fst (method2 ps (c # cs)))"
    by (simp add: method2_def)
qed

lemma refill_with_retry:
  "snd (execute_nado_order_with_retry refill_env ''BTC'' ''0.0001'' (Fin (- 5)) ''long'' 3)
     = Some (Returns True)"
  unfolding execute_nado_order_with_retry_def
  using retry_loop_stops_at(1) [of 1 the_monitor refill_env "''BTC''" "''0.0001''" "Fin (- 5)"
      "''long''" 3 "Returns True"] refill_turn_0 refill_turn_1
  by simp

theorem hedge_only_after_fill_witness:
  "hedge_attempted (fst (method1 refill_pages [btc_config]))
   \<and> \<not> hedge_attempted (fst (method1 stale_pages [btc_config]))
   \<and> snd (method1 stale_pages [btc_config]) = Some (Returns ())"
proof -
  note main = hedge_only_after_fill
  have "\<exists>env c rest offset.
          [btc_config] = c # rest \<and> nado refill_pages = Some env
          \<and> config_price_offset c = Returns offset
          \<and> snd (execute_nado_order_with_retry env (cfg_symbol c) (config_size c) offset
                   ''long'' 3) = Some (Returns True)"
    by (intro exI [of _ refill_env] exI [of _ btc_config] exI [of _ "[]"]
          exI [of _ "Fin (- 5)"])
       (simp add: refill_pages_def btc_config_fields refill_with_retry)
  with main [THEN conjunct1, rule_format, of refill_pages "[btc_config]"]
  have a: "hedge_attempted (fst (method1 refill_pages [btc_config]))"
    by simp
  have "nado stale_pages = Some stale_env \<and> config_price_offset btc_config = Returns (Fin (- 5))
        \<and> (\<forall>i<3. snd (turn the_monitor stale_env (cfg_symbol btc_config)
                          (config_size btc_config) (Fin (- 5)) ''long'' i) = Retry)"
    by (simp add: stale_pages_def btc_config_fields stale_turn_long)
  with main [THEN conjunct2, THEN conjunct2, THEN conjunct2, THEN conjunct2, THEN conjunct1,
      rule_format, of stale_pages stale_env btc_config "Fin (- 5)" "[]"]
  have b: "snd (method1 stale_pages [btc_config]) = Some (Returns ())
           \<and> \<not> hedge_attempted (fst (method1 stale_pages [btc_config]))"
    by simp
  from a b show ?thesis by simp
qed

section \<open>End to end\<close>

lemma monitor_filled:
  assumes "\<forall>(t', p') \<in> set before.
             t' < retry_timeout \<and> t' < max_wait_time
             \<and> get_nado_position p' symbol = Returns initial_position"
      and "t < retry_timeout" and "t \<le> max_wait_time"
      and "get_nado_position p symbol = Returns current_position"
      and "current_position \<noteq> initial_position"
  shows "monitor_order_fill (before @ (t, p) # later) symbol initial_position check_interval
           max_wait_time retry_timeout
         = Some Filled"
  using assms(2-5) by (simp add: monitor_skips_quiet_polls [OF assms(1)])

text \<open>
  C1, as the code has it. In the scenario (symbol BTC, size 0.0001, offset \<open>- 5.00\<close>,
  long, bid 9060200, ask 9060400) the order price is \<open>9060200 - (- 500) = 9060700\<close>.
  When that order is submitted and a poll before 30 seconds reads a position other than
  the baseline, all earlier polls having read the baseline, the monitor answers Filled,
  the retry function returns \<open>True\<close> after this one submission, and \<open>method1\<close> goes on
  to \<open>execute_variational_short\<close>, which enters the same size \<open>0.0001\<close> once its short
  button has been clicked; \<open>execute_variational_long\<close> is not called.
\<close>

theorem end_to_end_long:
  assumes "cfg_symbol c = ''BTC''" and "cfg_size c = Some ''0.0001''"
      and "cfg_price_offset c = Some (Returns (Fin (- 5)))"
      and "nado ps = Some env"
      and "api_prices (env 0) = Some quote"
      and "quote ''bid'' = Some 9060200" and "quote ''ask'' = Some 9060400"
      and "get_nado_position (position_page (env 0)) ''BTC'' = Returns baseline"
      and "execute_nado_order (order_form (env 0)) ''BTC'' 9060700 ''0.0001'' ''long''
             = Returns True"
      and "polls (env 0) = before @ (t, p) # later"
      and "\<forall>(t', p') \<in> set before. t' < 30 \<and> get_nado_position p' ''BTC'' = Returns baseline"
      and "t < 30" and "get_nado_position p ''BTC'' = Returns current"
      and "current \<noteq> baseline"
  shows "get_and_calculate_order_price (api_prices (env 0)) (Fin (- 5)) ''long''
           = Returns (Some (9060200, 9060700))
       \<and> the_monitor (polls (env 0)) ''BTC'' baseline = Some Filled
       \<and> method1 ps (c # cs)
           = ([GetPrice, GetPosition, ExecuteNadoOrder ''long'' 9060700 ''0.0001'',
               MonitorOrderFill] @ fst (execute_variational_short ps (c # cs)),
              Some (Returns ()))
       \<and> (\<exists>evs. fst (execute_variational_short ps (c # cs)) = ExecuteVariationalShort # evs)
       \<and> ExecuteVariationalLong \<notin> set (fst (method1 ps (c # cs)))
       \<and> (\<forall>v. variational ps = Some v \<and> click_short_button_variational v
              \<longrightarrow> FillQuantityVariational ''0.0001''
                    \<in> set (fst (execute_variational_short ps (c # cs))))"
proof -
  have cents: "price_offset_int (Fin (- 5)) = Returns (- 500)"
    by code_simp
  have price: "get_and_calculate_order_price (api_prices (env 0)) (Fin (- 5)) ''long''
                 = Returns (Some (9060200, 9060700))"
    using order_price_eq [of quote "''bid''" 9060200 "''long''" "Fin (- 5)" "- 500"] assms(5,6)
      cents
    by simp
  from assms(11) have quiet: "\<forall>(t', p') \<in> set before.
      t' < 30 \<and> t' < 300 \<and> get_nado_position p' ''BTC'' = Returns baseline"
    by fastforce
  have filled: "the_monitor (polls (env 0)) ''BTC'' baseline = Some Filled"
    unfolding the_monitor_def assms(10)
    using monitor_filled [OF quiet assms(12) _ assms(13,14)] assms(12)
    by simp
  have it: "retry_iteration the_monitor (env (nat 0)) ''BTC'' ''0.0001'' (Fin (- 5)) ''long'' 0
              = ([GetPrice, GetPosition, ExecuteNadoOrder ''long'' 9060700 ''0.0001'',
                  MonitorOrderFill], Stop (Returns True))"
    unfolding retry_iteration_def
    using price assms(8,9) filled by simp
  have run: "execute_nado_order_with_retry env ''BTC'' ''0.0001'' (Fin (- 5)) ''long'' 3
               = ([GetPrice, GetPosition, ExecuteNadoOrder ''long'' 9060700 ''0.0001'',
                   MonitorOrderFill], Some (Returns True))"
    unfolding execute_nado_order_with_retry_def
    by (rule retry_loop_stop [where env = env, OF _ it]) simp
  have size: "config_size c = ''0.0001''" and off: "config_price_offset c = Returns (Fin (- 5))"
    using assms(2,3) by (simp_all add: config_size_def config_price_offset_def)
  obtain b where hret: "snd (execute_variational_short ps (c # cs)) = Returns b"
    using execute_variational_short_returns [of ps c cs] by blast
  have m: "method1 ps (c # cs)
           = ([GetPrice, GetPosition, ExecuteNadoOrder ''long'' 9060700 ''0.0001'',
               MonitorOrderFill] @ fst (execute_variational_short ps (c # cs)),
              Some (Returns ()))"
    unfolding method1_def
    using trade_method_returned [OF assms(4) off, of "''long''" 3 _ True
        execute_variational_short cs] run size assms(1) hret
    by simp
  have short: "\<exists>evs. fst (execute_variational_short ps (c # cs)) = ExecuteVariationalShort # evs"
    by (rule execute_variational_short_events(3))
  have nolong: "ExecuteVariationalLong \<notin> set (fst (execute_variational_short ps (c # cs)))"
    unfolding execute_variational_short_def
    by (simp split: option.splits)
  have same_size: "\<forall>v. variational ps = Some v \<and> click_short_button_variational v
              \<longrightarrow> FillQuantityVariational ''0.0001''
                    \<in> set (fst (execute_variational_short ps (c # cs)))"
    unfolding execute_variational_short_def using size by simp
  from price filled m short nolong same_size show ?thesis
    by simp
qed

theorem end_to_end_long_witness:
  "method1 fill_pages [btc_config]
     = ([GetPrice, GetPosition, ExecuteNadoOrder ''long'' 9060700 ''0.0001'', MonitorOrderFill,
         ExecuteVariationalShort, FillQuantityVariational ''0.0001'',
         ClickSubmitVariational ''BTC''],
        Some (Returns ()))"
proof -
  have hedge: "fst (execute_variational_short fill_pages [btc_config])
      = [ExecuteVariationalShort, FillQuantityVariational ''0.0001'',
         ClickSubmitVariational ''BTC'']"
    by (simp add: execute_variational_short_def fill_pages_def good_variational_def
          btc_config_fields)
  have "\<forall>(t', p') \<in> set [(0 :: rat, page_showing ''BTC 0.0010'')].
          t' < 30 \<and> get_nado_position p' ''BTC'' = Returns (Some ''BTC 0.0010'')"
    by (simp add: position_shown)
  from end_to_end_long [where c = btc_config and ps = fill_pages and env = fill_env
      and quote = example_quote and baseline = "Some ''BTC 0.0010''"
      and before = "[(0, page_showing ''BTC 0.0010'')]" and t = "1 / 2"
      and p = "page_showing ''BTC 0.0011''" and later = "[]"
      and current = "Some ''BTC 0.0011''" and cs = "[]", OF _ _ _ _ _ _ _ _ _ _ this]
  show ?thesis
    by (simp add: btc_config_def fill_pages_def fill_env_def example_attempt_def
          filled_polls_def example_quote_def position_shown position_shown_later
          good_form_submits hedge [unfolded fill_pages_def btc_config_def])
qed

text \<open>
  C1 as stated fails: the order price of the scenario is 9060700, not 9059700.
\<close>

theorem end_to_end_price_counterexample:
  "get_and_calculate_order_price (Some example_quote) (Fin (- 5)) ''long''
     = Returns (Some (9060200, 9060700))
   \<and> (9060700 :: int) \<noteq> 9059700"
  by code_simp

end
